theory Spec2Isabelle
  imports Main
begin

section \<open>The enrich service of rest.py\<close>

text \<open>
  The module rest.py serves one resource, \<^verbatim>\<open>/enrich\<close>. Its \<^verbatim>\<open>POST\<close> handler takes an
  uploaded image or a base64 text, extracts the text of the image with an OCR engine,
  detects its language, translates it and answers with a JSON object of three fields.

  The handler talks to five collaborators: the base64 decoder, the uuid generator, the
  file system, the OCR engine (PIL and pytesseract) and the goslate client. They are
  parameters of the model (the record \<open>env\<close>). Every call to one of them is appended to a
  trace, with its arguments and its outcome, so that what the handler did, in which
  order, is a value that theorems can speak about. A collaborator's answer may depend on
  everything that happened before (the files written, the calls made): each one takes
  the current world as an argument.

  Strings are byte strings, as Python 2's \<^verbatim>\<open>str\<close>: \<^verbatim>\<open>str(x)\<close> is the identity on them.
\<close>

subsection \<open>Module constants (lines 32 to 40)\<close>

definition supported_filetypes :: "string list" where
  "supported_filetypes = [''jpg'']"

definition supported_languages :: "string list" where
  "supported_languages = [''en'', ''de'', ''it'']"

definition supported_languages_tesseract :: "string \<rightharpoonup> string" where
  "supported_languages_tesseract =
     [''en'' \<mapsto> ''eng'', ''de'' \<mapsto> ''deu'', ''it'' \<mapsto> ''ita'',
      ''fr'' \<mapsto> ''fra'', ''es'' \<mapsto> ''spa'', ''sv'' \<mapsto> ''swe'']"

subsection \<open>Faults and responses\<close>

text \<open>
  \<^verbatim>\<open>web.badrequest\<close>, \<^verbatim>\<open>web.notfound\<close> and \<^verbatim>\<open>web.internalerror\<close> with their messages.
  \<open>Uncaught\<close> is a Python exception that no handler of the module catches; web.py
  answers it with status 500.
\<close>

datatype fault =
    BadRequest string
  | NotFound string
  | InternalError string
  | Uncaught string

fun status :: "fault \<Rightarrow> nat" where
  "status (BadRequest m) = 400"
| "status (NotFound m) = 404"
| "status (InternalError m) = 500"
| "status (Uncaught x) = 500"

text \<open>The dictionary that \<^verbatim>\<open>get_json\<close> serialises.\<close>

record response =
  detected :: string
  resp_text :: string
  translation :: string

subsection \<open>The request\<close>

text \<open>
  \<^verbatim>\<open>data = web.input(image={})\<close>. A form field is present (\<open>Some\<close>) or not. The image
  field is either an uploaded part with its bytes and its file name (\<open>None\<close> for a part
  that is not a file), or the default \<^verbatim>\<open>{}\<close> that \<^verbatim>\<open>web.input\<close> puts there when the form
  has no image part: a dictionary has neither \<^verbatim>\<open>value\<close> nor \<^verbatim>\<open>filename\<close>.
\<close>

datatype upload =
    NoUpload
  | Upload string "string option"

record request =
  data_image :: "upload option"
  data_filetype :: "string option"
  data_text :: "string option"
  data_source :: "string option"
  data_target :: "string option"

subsection \<open>The world and the collaborators\<close>

datatype store_outcome =
    Stored
  | StoreRaised "string option"

datatype detect_outcome =
    DetectRaised
  | DetectNone
  | DetectLang string

datatype event =
    EvUuid string
  | EvStore string string store_outcome
  | EvOpen string bool
  | EvOcr string "string option" "string option"
  | EvDetect string detect_outcome
  | EvLanguages "(string \<rightharpoonup> string) option"
  | EvTranslate string string "string option" "string option"

text \<open>
  \<open>EvStore path bytes outcome\<close>: lines 137 to 139 ran on \<open>path\<close>; \<open>StoreRaised c\<close> says
  that one of \<^verbatim>\<open>open\<close>, \<^verbatim>\<open>write\<close>, \<^verbatim>\<open>close\<close> raised, leaving the content \<open>c\<close> at the path
  (\<open>None\<close>: the path was not touched).
  \<open>EvOcr path hint result\<close>: \<^verbatim>\<open>pytesseract.image_to_string\<close> was called on the image
  opened from \<open>path\<close>, with the language \<open>hint\<close> if any; \<open>None\<close> as result says it raised.
  \<open>EvDetect text result\<close>: \<^verbatim>\<open>gs.detect\<close> was called on \<open>text\<close>.
  \<open>EvLanguages result\<close>: \<^verbatim>\<open>gs.get_languages\<close> was called; \<open>None\<close> says it raised.
  \<open>EvTranslate text target source result\<close>: \<^verbatim>\<open>gs.translate\<close> was called, with the source
  language if any; \<open>None\<close> as result says it raised.
\<close>

record world =
  files :: "string \<rightharpoonup> string"
  trace :: "event list"

record env =
  ext_b64decode :: "string \<Rightarrow> string option"
  ext_uuid4 :: "world \<Rightarrow> string"
  ext_store :: "world \<Rightarrow> string \<Rightarrow> string \<Rightarrow> store_outcome"
  ext_image_open :: "world \<Rightarrow> string \<Rightarrow> bool"
  ext_image_to_string :: "world \<Rightarrow> string \<Rightarrow> string option \<Rightarrow> string option"
  ext_detect :: "world \<Rightarrow> string \<Rightarrow> detect_outcome"
  ext_get_languages :: "world \<Rightarrow> (string \<rightharpoonup> string) option"
  ext_translate :: "world \<Rightarrow> string \<Rightarrow> string \<Rightarrow> string option \<Rightarrow> string option"

text \<open>
  A computation of the handler: from the world to a fault or a value, and the world
  after it. \<open>and_then\<close> is Python's sequencing: a raised fault skips what follows.
\<close>

type_synonym 'a action = "world \<Rightarrow> (fault + 'a) \<times> world"

definition raise :: "fault \<Rightarrow> 'a action" where
  "raise e w = (Inl e, w)"

definition ret :: "'a \<Rightarrow> 'a action" where
  "ret x w = (Inr x, w)"

definition and_then :: "'a action \<Rightarrow> ('a \<Rightarrow> 'b action) \<Rightarrow> 'b action" where
  "and_then m f w = (case m w of (Inl e, w') \<Rightarrow> (Inl e, w') | (Inr x, w') \<Rightarrow> f x w')"

definition log :: "event \<Rightarrow> world \<Rightarrow> world" where
  "log e w = w\<lparr>trace := trace w @ [e]\<rparr>"

definition call_uuid4 :: "env \<Rightarrow> string action" where
  "call_uuid4 env w = (let u = ext_uuid4 env w in (Inr u, log (EvUuid u) w))"

definition call_store :: "env \<Rightarrow> string \<Rightarrow> string \<Rightarrow> store_outcome action" where
  "call_store env path bytes w =
     (let out = ext_store env w path bytes;
          fs = (case out of
                  Stored \<Rightarrow> (files w)(path \<mapsto> bytes)
                | StoreRaised None \<Rightarrow> files w
                | StoreRaised (Some c) \<Rightarrow> (files w)(path \<mapsto> c))
      in (Inr out, log (EvStore path bytes out) (w\<lparr>files := fs\<rparr>)))"

definition call_image_open :: "env \<Rightarrow> string \<Rightarrow> bool action" where
  "call_image_open env path w =
     (let ok = ext_image_open env w path in (Inr ok, log (EvOpen path ok) w))"

definition call_image_to_string :: "env \<Rightarrow> string \<Rightarrow> string option \<Rightarrow> string option action" where
  "call_image_to_string env path lang w =
     (let r = ext_image_to_string env w path lang in (Inr r, log (EvOcr path lang r) w))"

definition call_detect :: "env \<Rightarrow> string \<Rightarrow> detect_outcome action" where
  "call_detect env txt w =
     (let r = ext_detect env w txt in (Inr r, log (EvDetect txt r) w))"

definition call_get_languages :: "env \<Rightarrow> (string \<rightharpoonup> string) option action" where
  "call_get_languages env w =
     (let r = ext_get_languages env w in (Inr r, log (EvLanguages r) w))"

definition call_translate :: "env \<Rightarrow> string \<Rightarrow> string \<Rightarrow> string option \<Rightarrow> string option action" where
  "call_translate env txt target_lang source_lang w =
     (let r = ext_translate env w txt target_lang source_lang
      in (Inr r, log (EvTranslate txt target_lang source_lang r) w))"

subsection \<open>\<^verbatim>\<open>str.lower\<close>\<close>

definition lower_char :: "char \<Rightarrow> char" where
  "lower_char c =
     (let n = (of_char c :: nat) in if 65 \<le> n \<and> n \<le> 90 then char_of (n + 32) else c)"

definition lower :: "string \<Rightarrow> string" where
  "lower s = map lower_char s"

subsection \<open>The static methods (lines 194 to 373)\<close>

text \<open>
  \<^verbatim>\<open>get_text\<close>, lines 195 to 238. The handler always passes a string as path, so the
  test \<^verbatim>\<open>image_path is None\<close> has no case here.
\<close>

definition get_text :: "env \<Rightarrow> string \<Rightarrow> string option \<Rightarrow> string action" where
  "get_text env image_path source_lang =
     (if length image_path = 0 then raise (InternalError ''Path to image is not valid.'')
      else and_then (call_image_open env image_path) (\<lambda>opened.
        if \<not> opened then raise (InternalError ''Could not open image.'')
        else and_then (call_image_to_string env image_path source_lang) (\<lambda>r.
          case r of
            None \<Rightarrow> raise (InternalError ''Could not extract text from image.'')
          | Some txt \<Rightarrow>
              if length txt \<le> 0 then raise (NotFound ''No text detected in image.'')
              else ret txt)))"

text \<open>
  \<^verbatim>\<open>get_translation\<close>, lines 241 to 279. The text is \<open>None\<close> when the handler had neither
  an image nor a corrected text.
\<close>

definition get_translation ::
  "env \<Rightarrow> string option \<Rightarrow> string \<Rightarrow> string option \<Rightarrow> string action" where
  "get_translation env txt target_lang source_lang =
     (case txt of
        None \<Rightarrow> raise (InternalError ''No text specified.'')
      | Some t \<Rightarrow>
          if length t = 0 then raise (InternalError ''No text specified.'')
          else if length target_lang = 0
            then raise (InternalError ''Target language is not valid.'')
          else and_then (call_translate env t target_lang source_lang) (\<lambda>r.
            case r of
              None \<Rightarrow> raise (InternalError ''Could not translate image.'')
            | Some tr \<Rightarrow> ret tr))"

text \<open>
  \<^verbatim>\<open>get_language\<close>, lines 282 to 307. The call \<^verbatim>\<open>gs.detect\<close> is not inside a \<^verbatim>\<open>try\<close>: when
  it raises, the exception leaves the handler uncaught.
\<close>

definition get_language :: "env \<Rightarrow> string option \<Rightarrow> string action" where
  "get_language env txt =
     (case txt of
        None \<Rightarrow> raise (InternalError ''No text specified.'')
      | Some t \<Rightarrow>
          if length t = 0 then raise (InternalError ''No text specified.'')
          else and_then (call_detect env t) (\<lambda>r.
            case r of
              DetectRaised \<Rightarrow> raise (Uncaught ''goslate.detect'')
            | DetectNone \<Rightarrow> ret ''unk''
            | DetectLang l \<Rightarrow> ret l))"

text \<open>
  \<^verbatim>\<open>get_language_name\<close>, lines 310 to 336; \<^verbatim>\<open>gs.get_languages\<close> is not inside a \<^verbatim>\<open>try\<close>
  either. \<open>display_name\<close> is lines 330 to 333.
\<close>

definition display_name :: "(string \<rightharpoonup> string) \<Rightarrow> string \<Rightarrow> string" where
  "display_name gs_languages language =
     (case gs_languages language of
        Some name \<Rightarrow> ''detected:'' @ name
      | None \<Rightarrow> ''Unknown'')"

definition get_language_name :: "env \<Rightarrow> string \<Rightarrow> string action" where
  "get_language_name env language =
     (if length language = 0 then raise (InternalError ''No language specified.'')
      else and_then (call_get_languages env) (\<lambda>r.
        case r of
          None \<Rightarrow> raise (Uncaught ''goslate.get_languages'')
        | Some gs_languages \<Rightarrow> ret (display_name gs_languages language)))"

text \<open>\<^verbatim>\<open>get_json\<close>, lines 339 to 373.\<close>

definition get_json :: "string option \<Rightarrow> string \<Rightarrow> string \<Rightarrow> response action" where
  "get_json txt transl detected_lang =
     (case txt of
        None \<Rightarrow> raise (InternalError ''No text specified.'')
      | Some t \<Rightarrow>
          if length t = 0 then raise (InternalError ''No text specified.'')
          else if length transl = 0 then raise (InternalError ''No translation specified.'')
          else if length detected_lang = 0
            then raise (InternalError ''Detected language is not valid.'')
          else ret \<lparr>detected = detected_lang, resp_text = t, translation = transl\<rparr>)"

subsection \<open>The handler \<^verbatim>\<open>POST\<close> (lines 64 to 192)\<close>

text \<open>
  Lines 101 to 103: the corrected text and the flag \<^verbatim>\<open>corrected\<close>.
  \<^verbatim>\<open>base64.b64decode\<close> raises \<^verbatim>\<open>TypeError\<close> on a text that is not base64.
\<close>

definition read_corrected :: "env \<Rightarrow> request \<Rightarrow> (string option \<times> bool) action" where
  "read_corrected env data =
     (case data_text data of
        None \<Rightarrow> ret (None, False)
      | Some b \<Rightarrow>
          (case ext_b64decode env b of
             None \<Rightarrow> raise (Uncaught ''TypeError'')
           | Some t \<Rightarrow> ret (Some t, True)))"

text \<open>Lines 105 to 109: the declared source language, kept only when it is supported.\<close>

definition read_source :: "request \<Rightarrow> string option" where
  "read_source data =
     (case data_source data of
        None \<Rightarrow> None
      | Some s \<Rightarrow> if lower s \<in> set supported_languages then Some (lower s) else None)"

text \<open>
  Lines 147 to 150, the first extraction: with the declared source language as hint, if
  there is one. A supported language always has an entry in the table; the lookup is
  written out all the same.
\<close>

definition first_pass :: "env \<Rightarrow> string \<Rightarrow> string option \<Rightarrow> string action" where
  "first_pass env final_image_path source_lang =
     (case source_lang of
        None \<Rightarrow> get_text env final_image_path None
      | Some sl \<Rightarrow>
          (case supported_languages_tesseract sl of
             None \<Rightarrow> raise (Uncaught ''KeyError'')
           | Some hint \<Rightarrow> get_text env final_image_path (Some hint)))"

text \<open>
  Lines 154 to 156, the second extraction: its text replaces \<^verbatim>\<open>text_from_image\<close>.
\<close>

definition second_pass ::
  "env \<Rightarrow> string \<Rightarrow> string option \<Rightarrow> string \<Rightarrow> string \<Rightarrow> string action" where
  "second_pass env final_image_path source_lang text_from_image detected_lang =
     (case supported_languages_tesseract detected_lang of
        Some hint \<Rightarrow>
          if source_lang = None then get_text env final_image_path (Some hint)
          else ret text_from_image
      | None \<Rightarrow> ret text_from_image)"

text \<open>Lines 158 to 159, and again 164 to 165: the display name of an unsupported language.\<close>

definition display_lang :: "env \<Rightarrow> string \<Rightarrow> string action" where
  "display_lang env detected_lang =
     (if detected_lang \<notin> set supported_languages then get_language_name env detected_lang
      else ret detected_lang)"

text \<open>
  Lines 144 to 159, the body of the \<^verbatim>\<open>finally\<close> clause: the first extraction, the
  detection, the second extraction and the display name. Its value is the pair of
  \<^verbatim>\<open>text_from_image\<close> and \<^verbatim>\<open>detected_lang\<close>.
\<close>

definition extract_and_detect ::
  "env \<Rightarrow> string \<Rightarrow> string option \<Rightarrow> (string \<times> string) action" where
  "extract_and_detect env final_image_path source_lang =
     and_then (first_pass env final_image_path source_lang) (\<lambda>text_from_image.
     and_then (get_language env (Some text_from_image)) (\<lambda>detected_lang.
     and_then (second_pass env final_image_path source_lang text_from_image detected_lang)
       (\<lambda>text_from_image.
     and_then (display_lang env detected_lang) (\<lambda>detected_lang.
     ret (text_from_image, detected_lang)))))"

text \<open>
  Lines 114 to 130, the checks on the upload: the bytes, the file name and the file
  type. The value is what the handler stores: the bytes and the lowered file type.
\<close>

definition validate_upload :: "upload \<Rightarrow> string option \<Rightarrow> fault + string \<times> string" where
  "validate_upload img ftype =
     (case img of
        NoUpload \<Rightarrow> Inl (Uncaught ''AttributeError'')
      | Upload val fname \<Rightarrow>
          if length val = 0 then Inl (BadRequest ''No image to process. No value.'')
          else
            (case fname of
               None \<Rightarrow> Inl (Uncaught ''TypeError'')
             | Some fnm \<Rightarrow>
                 if length fnm = 0 then Inl (BadRequest ''No image to process. No filename.'')
                 else
                   (case ftype of
                      Some ft \<Rightarrow>
                        if lower ft \<notin> set supported_filetypes
                        then Inl (BadRequest ''No support for this filetype.'')
                        else Inr (val, lower ft)
                    | None \<Rightarrow> Inl (BadRequest ''No file-type specified.''))))"

text \<open>
  Lines 132 to 159; \<open>image_path\<close> is the path of lines 132 to 134 and 144, from the
  identifier that \<^verbatim>\<open>uuid.uuid4\<close> gave. The \<^verbatim>\<open>except\<close> clause raises the storage fault; Python then runs the
  \<^verbatim>\<open>finally\<close> clause and raises the pending fault again only when the clause ends
  without raising one of its own.
\<close>

definition image_path :: "string \<Rightarrow> string \<Rightarrow> string" where
  "image_path image_id filetype =
     (let image_dir = ''uploads'';
          image_name = image_id @ ''.'' @ filetype
      in image_dir @ ''/'' @ image_name)"

definition store_and_extract ::
  "env \<Rightarrow> string \<Rightarrow> string \<Rightarrow> string option \<Rightarrow> (string option \<times> string) action" where
  "store_and_extract env val filetype source_lang =
     and_then (call_uuid4 env) (\<lambda>image_id.
     let final_image_path = image_path image_id filetype in
     and_then (call_store env final_image_path val) (\<lambda>out.
     and_then (extract_and_detect env final_image_path source_lang)
       (\<lambda>(text_from_image, detected_lang).
     case out of
       StoreRaised c \<Rightarrow> raise (InternalError ''Server: Could not store image.'')
     | Stored \<Rightarrow> ret (Some text_from_image, detected_lang))))"

text \<open>Lines 111 to 159: the image is handled only when there is no corrected text.\<close>

definition image_block ::
  "env \<Rightarrow> request \<Rightarrow> bool \<Rightarrow> string option \<Rightarrow> (string option \<times> string) action" where
  "image_block env data corrected source_lang =
     (case data_image data of
        None \<Rightarrow> ret (None, ''unk'')
      | Some img \<Rightarrow>
          if corrected then ret (None, ''unk'')
          else
            (case validate_upload img (data_filetype data) of
               Inl e \<Rightarrow> raise e
             | Inr (val, filetype) \<Rightarrow> store_and_extract env val filetype source_lang))"

text \<open>Lines 161 to 165: detection on the corrected text.\<close>

definition corrected_block ::
  "env \<Rightarrow> bool \<Rightarrow> string option \<Rightarrow> string \<Rightarrow> string action" where
  "corrected_block env corrected corrected_text detected_lang =
     (if corrected
      then and_then (get_language env corrected_text) (\<lambda>detected_lang.
        display_lang env detected_lang)
      else ret detected_lang)"

text \<open>Lines 167 to 187: the target language and the translation.\<close>

definition translate_block ::
  "env \<Rightarrow> request \<Rightarrow> bool \<Rightarrow> string option \<Rightarrow> string option \<Rightarrow> string option
     \<Rightarrow> string action" where
  "translate_block env data corrected corrected_text text_from_image source_lang =
     (case data_target data of
        Some tg \<Rightarrow>
          if lower tg \<notin> set supported_languages
          then raise (BadRequest ''This target language is not supported.'')
          else
            (case source_lang of
               None \<Rightarrow>
                 if \<not> corrected then get_translation env text_from_image (lower tg) None
                 else get_translation env corrected_text (lower tg) None
             | Some sl \<Rightarrow>
                 if \<not> corrected then get_translation env text_from_image (lower tg) (Some sl)
                 else get_translation env corrected_text (lower tg) (Some sl))
      | None \<Rightarrow> raise (BadRequest ''No language to translate into specified.''))"

text \<open>
  Lines 92 to 165, all that the handler does before it looks at the target language.
  Its value is what the rest of the handler reads: \<^verbatim>\<open>corrected_text\<close>, \<^verbatim>\<open>corrected\<close>,
  \<^verbatim>\<open>source_lang\<close>, \<^verbatim>\<open>text_from_image\<close> and \<^verbatim>\<open>detected_lang\<close>.
\<close>

definition extraction_phase ::
  "env \<Rightarrow> request
     \<Rightarrow> (string option \<times> bool \<times> string option \<times> string option \<times> string) action" where
  "extraction_phase env data =
     and_then (read_corrected env data) (\<lambda>(corrected_text, corrected).
     let source_lang = read_source data in
     and_then (image_block env data corrected source_lang) (\<lambda>(text_from_image, detected_lang).
     and_then (corrected_block env corrected corrected_text detected_lang) (\<lambda>detected_lang.
     ret (corrected_text, corrected, source_lang, text_from_image, detected_lang))))"

definition POST :: "env \<Rightarrow> request \<Rightarrow> response action" where
  "POST env data =
     and_then (extraction_phase env data)
       (\<lambda>(corrected_text, corrected, source_lang, text_from_image, detected_lang).
     and_then (translate_block env data corrected corrected_text text_from_image source_lang)
       (\<lambda>transl.
     if \<not> corrected then get_json text_from_image transl detected_lang
     else get_json corrected_text transl detected_lang))"

subsection \<open>Reading a run\<close>

text \<open>The events that a computation appends to the trace, and its result.\<close>

definition events :: "'a action \<Rightarrow> world \<Rightarrow> event list" where
  "events m w = drop (length (trace w)) (trace (snd (m w)))"

definition outcome :: "'a action \<Rightarrow> world \<Rightarrow> fault + 'a" where
  "outcome m w = fst (m w)"

fun is_ocr :: "event \<Rightarrow> bool" where
  "is_ocr (EvOcr p h r) = True"
| "is_ocr e = False"

fun is_detect :: "event \<Rightarrow> bool" where
  "is_detect (EvDetect t r) = True"
| "is_detect e = False"

fun is_translate :: "event \<Rightarrow> bool" where
  "is_translate (EvTranslate t tg s r) = True"
| "is_translate e = False"

fun is_store :: "event \<Rightarrow> bool" where
  "is_store (EvStore p b out) = True"
| "is_store e = False"

fun is_open :: "event \<Rightarrow> bool" where
  "is_open (EvOpen p ok) = True"
| "is_open e = False"

fun is_languages :: "event \<Rightarrow> bool" where
  "is_languages (EvLanguages r) = True"
| "is_languages e = False"

text \<open>
  An extraction pass is a call of \<^verbatim>\<open>get_text\<close>. The handler's path is never empty, so
  every pass opens the image first: the passes of a run are its \<open>EvOpen\<close> events.

  The language that \<^verbatim>\<open>get_language\<close> returns for an answer of the detector (lines 301 to
  304): none when the detector raised.
\<close>

fun guess :: "detect_outcome \<Rightarrow> string option" where
  "guess DetectRaised = None"
| "guess DetectNone = Some ''unk''"
| "guess (DetectLang l) = Some l"

section \<open>Contracts\<close>

text \<open>
  What a computation may do, told without the world: a contract relates the result of
  a computation to the events it appends. \<open>sat m Q\<close> says that \<open>m\<close>, from any world,
  only appends to the trace, leaves the files alone unless it logs a store, and ends
  with a result and events that \<open>Q\<close> relates. \<open>seq_post\<close> is the contract of
  \<open>and_then\<close>. The contracts below follow the definitions of the handler step by step,
  with each answer of a collaborator left open.
\<close>

definition sat :: "'a action \<Rightarrow> (fault + 'a \<Rightarrow> event list \<Rightarrow> bool) \<Rightarrow> bool" where
  "sat m Q = (\<forall>w. trace (snd (m w)) = trace w @ events m w
                \<and> ((\<forall>e \<in> set (events m w). \<not> is_store e) \<longrightarrow> files (snd (m w)) = files w)
                \<and> Q (outcome m w) (events m w))"

definition seq_post ::
  "(fault + 'a \<Rightarrow> event list \<Rightarrow> bool) \<Rightarrow> ('a \<Rightarrow> fault + 'b \<Rightarrow> event list \<Rightarrow> bool)
     \<Rightarrow> fault + 'b \<Rightarrow> event list \<Rightarrow> bool" where
  "seq_post Q1 Q2 r evs =
     ((\<exists>e. r = Inl e \<and> Q1 (Inl e) evs)
      \<or> (\<exists>x evs1 evs2. Q1 (Inr x) evs1 \<and> Q2 x r evs2 \<and> evs = evs1 @ evs2))"

definition pass_post :: "string \<Rightarrow> string option \<Rightarrow> fault + string \<Rightarrow> event list \<Rightarrow> bool" where
  "pass_post p h r evs =
     (p = [] \<and> evs = [] \<and> r = Inl (InternalError ''Path to image is not valid.'')
      \<or> p \<noteq> [] \<and> evs = [EvOpen p False] \<and> r = Inl (InternalError ''Could not open image.'')
      \<or> p \<noteq> [] \<and> evs = [EvOpen p True, EvOcr p h None]
          \<and> r = Inl (InternalError ''Could not extract text from image.'')
      \<or> p \<noteq> [] \<and> evs = [EvOpen p True, EvOcr p h (Some [])]
          \<and> r = Inl (NotFound ''No text detected in image.'')
      \<or> (\<exists>t. t \<noteq> [] \<and> p \<noteq> [] \<and> evs = [EvOpen p True, EvOcr p h (Some t)] \<and> r = Inr t))"

definition lang_post :: "string option \<Rightarrow> fault + string \<Rightarrow> event list \<Rightarrow> bool" where
  "lang_post txt r evs =
     ((txt = None \<or> txt = Some []) \<and> evs = [] \<and> r = Inl (InternalError ''No text specified.'')
      \<or> (\<exists>t. txt = Some t \<and> t \<noteq> [] \<and>
           (evs = [EvDetect t DetectRaised] \<and> r = Inl (Uncaught ''goslate.detect'')
            \<or> (\<exists>a l. evs = [EvDetect t a] \<and> guess a = Some l \<and> r = Inr l))))"

definition name_post :: "string \<Rightarrow> fault + string \<Rightarrow> event list \<Rightarrow> bool" where
  "name_post l r evs =
     (l = [] \<and> evs = [] \<and> r = Inl (InternalError ''No language specified.'')
      \<or> l \<noteq> [] \<and> evs = [EvLanguages None] \<and> r = Inl (Uncaught ''goslate.get_languages'')
      \<or> (\<exists>d. l \<noteq> [] \<and> evs = [EvLanguages (Some d)] \<and> r = Inr (display_name d l)))"

definition transl_post ::
  "string option \<Rightarrow> string \<Rightarrow> string option \<Rightarrow> fault + string \<Rightarrow> event list \<Rightarrow> bool" where
  "transl_post txt tg s r evs =
     (evs = [] \<and> (txt = None \<or> txt = Some [] \<or> tg = []) \<and> (\<exists>msg. r = Inl (InternalError msg))
      \<or> (\<exists>t. txt = Some t \<and> t \<noteq> [] \<and> tg \<noteq> [] \<and>
           (evs = [EvTranslate t tg s None] \<and> r = Inl (InternalError ''Could not translate image.'')
            \<or> (\<exists>tr. evs = [EvTranslate t tg s (Some tr)] \<and> r = Inr tr))))"

definition json_post ::
  "string option \<Rightarrow> string \<Rightarrow> string \<Rightarrow> fault + response \<Rightarrow> event list \<Rightarrow> bool" where
  "json_post txt tr dl r evs =
     (evs = [] \<and>
      ((\<exists>msg. r = Inl (InternalError msg))
       \<or> (\<exists>t. txt = Some t \<and> t \<noteq> [] \<and> tr \<noteq> [] \<and> dl \<noteq> []
            \<and> r = Inr \<lparr>detected = dl, resp_text = t, translation = tr\<rparr>)))"

definition first_post :: "string \<Rightarrow> string option \<Rightarrow> fault + string \<Rightarrow> event list \<Rightarrow> bool" where
  "first_post p sl =
     (case sl of
        None \<Rightarrow> pass_post p None
      | Some s \<Rightarrow>
          (case supported_languages_tesseract s of
             None \<Rightarrow> (\<lambda>r evs. evs = [] \<and> r = Inl (Uncaught ''KeyError''))
           | Some h \<Rightarrow> pass_post p (Some h)))"

definition second_post ::
  "string \<Rightarrow> string option \<Rightarrow> string \<Rightarrow> string \<Rightarrow> fault + string \<Rightarrow> event list \<Rightarrow> bool" where
  "second_post p sl t1 dl =
     (case supported_languages_tesseract dl of
        Some h \<Rightarrow> if sl = None then pass_post p (Some h) else (\<lambda>r evs. evs = [] \<and> r = Inr t1)
      | None \<Rightarrow> (\<lambda>r evs. evs = [] \<and> r = Inr t1))"

definition display_post :: "string \<Rightarrow> fault + string \<Rightarrow> event list \<Rightarrow> bool" where
  "display_post dl =
     (if dl \<notin> set supported_languages then name_post dl else (\<lambda>r evs. evs = [] \<and> r = Inr dl))"

definition extract_post ::
  "string \<Rightarrow> string option \<Rightarrow> fault + string \<times> string \<Rightarrow> event list \<Rightarrow> bool" where
  "extract_post p sl =
     seq_post (first_post p sl) (\<lambda>t1.
     seq_post (lang_post (Some t1)) (\<lambda>dl.
     seq_post (second_post p sl t1 dl) (\<lambda>t.
     seq_post (display_post dl) (\<lambda>d r evs. evs = [] \<and> r = Inr (t, d)))))"

definition store_post ::
  "string \<Rightarrow> string \<Rightarrow> string option \<Rightarrow> fault + string option \<times> string \<Rightarrow> event list \<Rightarrow> bool" where
  "store_post v ft sl =
     seq_post (\<lambda>r evs. \<exists>u. r = Inr u \<and> evs = [EvUuid u]) (\<lambda>u.
     seq_post (\<lambda>r evs. \<exists>out. r = Inr out \<and> evs = [EvStore (image_path u ft) v out])
       (\<lambda>out.
     seq_post (extract_post (image_path u ft) sl) (\<lambda>(t, d) r evs.
       evs = [] \<and>
       r = (case out of
              StoreRaised c \<Rightarrow> Inl (InternalError ''Server: Could not store image.'')
            | Stored \<Rightarrow> Inr (Some t, d)))))"

definition target_post ::
  "request \<Rightarrow> string option \<Rightarrow> string option \<Rightarrow> fault + string \<Rightarrow> event list \<Rightarrow> bool" where
  "target_post data txt sl =
     (case data_target data of
        Some tg \<Rightarrow>
          if lower tg \<notin> set supported_languages
          then (\<lambda>r evs. evs = [] \<and> r = Inl (BadRequest ''This target language is not supported.''))
          else transl_post txt (lower tg) sl
      | None \<Rightarrow>
          (\<lambda>r evs. evs = [] \<and> r = Inl (BadRequest ''No language to translate into specified.'')))"

definition tail_post ::
  "request \<Rightarrow> string option \<Rightarrow> string option \<Rightarrow> string \<Rightarrow> fault + response \<Rightarrow> event list \<Rightarrow> bool" where
  "tail_post data txt sl d =
     seq_post (target_post data txt sl) (\<lambda>tr. json_post txt tr d)"

definition image_run ::
  "request \<Rightarrow> string \<Rightarrow> string \<Rightarrow> fault + response \<Rightarrow> event list \<Rightarrow> bool" where
  "image_run data v ft =
     seq_post (store_post v ft (read_source data)) (\<lambda>(tfi, dl).
     tail_post data tfi (read_source data) dl)"

definition text_run :: "request \<Rightarrow> string \<Rightarrow> fault + response \<Rightarrow> event list \<Rightarrow> bool" where
  "text_run data ct =
     seq_post (lang_post (Some ct)) (\<lambda>g.
     seq_post (display_post g) (\<lambda>d.
     tail_post data (Some ct) (read_source data) d))"

subsection \<open>Sample collaborators\<close>

text \<open>
  A world with no file and no call yet, and collaborators that all succeed: the OCR
  engine reads a text with a typing error without a hint and the right text with one,
  the detector answers English.
\<close>

definition w0 :: world where
  "w0 = \<lparr>files = Map.empty, trace = []\<rparr>"

definition base_env :: env where
  "base_env =
     \<lparr>ext_b64decode = (\<lambda>b. if b = ''SGFsbG8gV2VsdA=='' then Some ''Hallo Welt'' else None),
      ext_uuid4 = (\<lambda>w. ''0001''),
      ext_store = (\<lambda>w p b. Stored),
      ext_image_open = (\<lambda>w p. True),
      ext_image_to_string =
        (\<lambda>w p h. case h of None \<Rightarrow> Some ''Helo wor1d'' | Some l \<Rightarrow> Some ''Hello world''),
      ext_detect = (\<lambda>w t. DetectLang ''en''),
      ext_get_languages = (\<lambda>w. Some [''fr'' \<mapsto> ''French'', ''en'' \<mapsto> ''English'']),
      ext_translate = (\<lambda>w t tg s. Some ''Hallo Welt'')\<rparr>"

definition image_request :: "string \<Rightarrow> string option \<Rightarrow> string option \<Rightarrow> request" where
  "image_request bytes src tgt =
     \<lparr>data_image = Some (Upload bytes (Some ''photo.jpg'')), data_filetype = Some ''jpg'',
      data_text = None, data_source = src, data_target = tgt\<rparr>"

definition text_request :: "string \<Rightarrow> string option \<Rightarrow> string option \<Rightarrow> request" where
  "text_request b src tgt =
     \<lparr>data_image = None, data_filetype = None,
      data_text = Some b, data_source = src, data_target = tgt\<rparr>"

text \<open>
  Variations: an image with no text in it, an OCR engine that raises, a disk that fills
  up while the file is written (the part written can still be read), a disk that refuses
  the file so that there is no image to open, and a detector that answers German.
\<close>

definition blank_page_env :: env where
  "blank_page_env = base_env\<lparr>ext_image_to_string := (\<lambda>w p h. Some [])\<rparr>"

definition broken_engine_env :: env where
  "broken_engine_env = base_env\<lparr>ext_image_to_string := (\<lambda>w p h. None)\<rparr>"

definition full_disk_env :: env where
  "full_disk_env = base_env\<lparr>ext_store := (\<lambda>w p b. StoreRaised (Some ''JP''))\<rparr>"

definition no_disk_env :: env where
  "no_disk_env =
     base_env\<lparr>ext_store := (\<lambda>w p b. StoreRaised None), ext_image_open := (\<lambda>w p. False)\<rparr>"

definition german_env :: env where
  "german_env =
     base_env\<lparr>ext_detect := (\<lambda>w t. DetectLang ''de''),
              ext_translate := (\<lambda>w t tg s. Some ''Hello world'')\<rparr>"

section \<open>Properties\<close>

lemmas act_defs = raise_def ret_def and_then_def log_def call_uuid4_def call_store_def
  call_image_open_def call_image_to_string_def call_detect_def call_get_languages_def
  call_translate_def

lemmas model_defs = POST_def extraction_phase_def read_corrected_def read_source_def
  image_block_def validate_upload_def store_and_extract_def image_path_def
  extract_and_detect_def first_pass_def second_pass_def display_lang_def corrected_block_def
  translate_block_def get_text_def get_translation_def get_language_def get_language_name_def
  get_json_def display_name_def act_defs lower_def lower_char_def supported_filetypes_def
  supported_languages_def supported_languages_tesseract_def

subsection \<open>The contract of each step\<close>

lemma satI:
  assumes "\<And>w. \<exists>evs. trace (snd (m w)) = trace w @ evs
              \<and> ((\<forall>e \<in> set evs. \<not> is_store e) \<longrightarrow> files (snd (m w)) = files w)
              \<and> Q (fst (m w)) evs"
  shows "sat m Q"
  unfolding sat_def events_def outcome_def
proof
  fix w
  from assms[of w] obtain evs where
    "trace (snd (m w)) = trace w @ evs"
    "(\<forall>e \<in> set evs. \<not> is_store e) \<longrightarrow> files (snd (m w)) = files w"
    "Q (fst (m w)) evs" by blast
  then show "trace (snd (m w)) = trace w @ drop (length (trace w)) (trace (snd (m w)))
     \<and> ((\<forall>e \<in> set (drop (length (trace w)) (trace (snd (m w)))). \<not> is_store e)
          \<longrightarrow> files (snd (m w)) = files w)
     \<and> Q (fst (m w)) (drop (length (trace w)) (trace (snd (m w))))"
    by simp
qed

lemma satD:
  assumes "sat m Q"
  shows "Q (outcome m w) (events m w)"
    and "trace (snd (m w)) = trace w @ events m w"
    and "(\<forall>e \<in> set (events m w). \<not> is_store e) \<Longrightarrow> files (snd (m w)) = files w"
  using assms unfolding sat_def by blast+

lemma sat_raise: "Q (Inl e) [] \<Longrightarrow> sat (raise e) Q"
  by (rule satI) (simp add: raise_def)

lemma sat_ret: "Q (Inr x) [] \<Longrightarrow> sat (ret x) Q"
  by (rule satI) (simp add: ret_def)

lemma sat_and_then:
  assumes m: "sat m Q1"
    and f: "\<And>x. sat (f x) (Q2 x)"
    and l: "\<And>e evs. Q1 (Inl e) evs \<Longrightarrow> Q (Inl e) evs"
    and r: "\<And>x evs1 r evs2. Q1 (Inr x) evs1 \<Longrightarrow> Q2 x r evs2 \<Longrightarrow> Q r (evs1 @ evs2)"
  shows "sat (and_then m f) Q"
proof (rule satI)
  fix w
  obtain r1 w1 where mw: "m w = (r1, w1)" by (cases "m w")
  have t1: "trace w1 = trace w @ events m w"
    and f1: "(\<forall>e \<in> set (events m w). \<not> is_store e) \<Longrightarrow> files w1 = files w"
    and q1: "Q1 r1 (events m w)"
    using satD[OF m, of w] mw by (simp_all add: outcome_def)
  show "\<exists>evs. trace (snd (and_then m f w)) = trace w @ evs
          \<and> ((\<forall>e \<in> set evs. \<not> is_store e) \<longrightarrow> files (snd (and_then m f w)) = files w)
          \<and> Q (fst (and_then m f w)) evs"
  proof (cases r1)
    case (Inl e)
    then have "and_then m f w = (Inl e, w1)" by (simp add: and_then_def mw)
    with t1 f1 q1 l Inl show ?thesis by auto
  next
    case (Inr x)
    then have eq: "and_then m f w = f x w1" by (simp add: and_then_def mw)
    have t2: "trace (snd (f x w1)) = trace w1 @ events (f x) w1"
      and f2: "(\<forall>e \<in> set (events (f x) w1). \<not> is_store e) \<Longrightarrow> files (snd (f x w1)) = files w1"
      and q2: "Q2 x (outcome (f x) w1) (events (f x) w1)"
      using satD[OF f, of x w1] by simp_all
    have "Q (outcome (f x) w1) (events m w @ events (f x) w1)"
      using r q1 q2 Inr by blast
    with t1 t2 f1 f2 eq show ?thesis
      by (intro exI[of _ "events m w @ events (f x) w1"]) (auto simp: outcome_def)
  qed
qed

lemma sat_seq:
  assumes "sat m Q1" and "\<And>x. sat (f x) (Q2 x)"
  shows "sat (and_then m f) (seq_post Q1 Q2)"
  by (rule sat_and_then[OF assms]) (auto simp: seq_post_def)

lemma sat_get_text: "sat (get_text env p h) (pass_post p h)"
  by (rule satI) (auto simp: get_text_def pass_post_def act_defs Let_def split: option.splits)

lemma sat_get_language: "sat (get_language env txt) (lang_post txt)"
  by (rule satI)
     (auto simp: get_language_def lang_post_def act_defs Let_def
           split: option.splits detect_outcome.splits)

lemma sat_get_language_name: "sat (get_language_name env l) (name_post l)"
  by (rule satI)
     (auto simp: get_language_name_def name_post_def act_defs Let_def split: option.splits)

lemma sat_get_translation: "sat (get_translation env txt tg s) (transl_post txt tg s)"
  by (rule satI)
     (auto simp: get_translation_def transl_post_def act_defs Let_def split: option.splits)

lemma sat_get_json: "sat (get_json txt tr dl) (json_post txt tr dl)"
  by (rule satI) (auto simp: get_json_def json_post_def act_defs split: option.splits)

lemma sat_first_pass: "sat (first_pass env p sl) (first_post p sl)"
  by (simp add: first_pass_def first_post_def sat_get_text sat_raise split: option.split)

lemma sat_second_pass: "sat (second_pass env p sl t1 dl) (second_post p sl t1 dl)"
  by (cases "supported_languages_tesseract dl"; cases sl)
     (simp_all add: second_pass_def second_post_def sat_get_text sat_ret)

lemma sat_display_lang: "sat (display_lang env dl) (display_post dl)"
  by (simp add: display_lang_def display_post_def sat_get_language_name sat_ret)

lemma sat_extract_and_detect: "sat (extract_and_detect env p sl) (extract_post p sl)"
  unfolding extract_and_detect_def extract_post_def
  by (intro sat_seq sat_first_pass sat_get_language sat_second_pass sat_display_lang sat_ret)
     simp

lemma sat_call_uuid4: "sat (call_uuid4 env) (\<lambda>r evs. \<exists>u. r = Inr u \<and> evs = [EvUuid u])"
  by (rule satI) (simp add: act_defs Let_def)

lemma sat_call_store:
  "sat (call_store env p v) (\<lambda>r evs. \<exists>out. r = Inr out \<and> evs = [EvStore p v out])"
  by (rule satI) (simp add: act_defs Let_def)

lemma sat_store_and_extract: "sat (store_and_extract env v ft sl) (store_post v ft sl)"
  unfolding store_and_extract_def store_post_def Let_def
  by (intro sat_seq sat_call_uuid4 sat_call_store sat_extract_and_detect)
     (auto intro!: sat_raise sat_ret split: store_outcome.split)

lemma translate_block_eq:
  "translate_block env data c ct tfi sl =
     (case data_target data of
        Some tg \<Rightarrow>
          if lower tg \<notin> set supported_languages
          then raise (BadRequest ''This target language is not supported.'')
          else get_translation env (if c then ct else tfi) (lower tg) sl
      | None \<Rightarrow> raise (BadRequest ''No language to translate into specified.''))"
  by (cases sl) (simp_all add: translate_block_def split: option.split)

lemma sat_translate_block:
  "sat (translate_block env data c ct tfi sl) (target_post data (if c then ct else tfi) sl)"
  unfolding translate_block_eq target_post_def
  by (simp add: sat_raise sat_get_translation split: option.split)

subsection \<open>The handler by mode\<close>

lemma and_then_ret [simp]: "and_then (ret x) f = f x"
  by (rule ext) (simp add: and_then_def ret_def)

lemma and_then_raise [simp]: "and_then (raise e) f = raise e"
  by (rule ext) (simp add: and_then_def raise_def)

lemma and_then_assoc: "and_then (and_then m f) g = and_then m (\<lambda>x. and_then (f x) g)"
  by (rule ext) (simp add: and_then_def split: prod.split sum.split)

lemma run_raise [simp]: "outcome (raise e) w = Inl e" "events (raise e) w = []" "snd (raise e w) = w"
  by (simp_all add: outcome_def events_def raise_def)

lemma image_block_corrected [simp]: "image_block env data True sl = ret (None, ''unk'')"
  by (simp add: image_block_def split: option.split)

lemma POST_text_mode:
  assumes "data_text data = Some b" and "ext_b64decode env b = Some ct"
  shows "POST env data =
     and_then (get_language env (Some ct)) (\<lambda>g.
     and_then (display_lang env g) (\<lambda>d.
     and_then (translate_block env data True (Some ct) None (read_source data)) (\<lambda>tr.
     get_json (Some ct) tr d)))"
  using assms
  by (simp add: POST_def extraction_phase_def read_corrected_def corrected_block_def
        and_then_assoc Let_def)

lemma POST_text_undecodable:
  assumes "data_text data = Some b" and "ext_b64decode env b = None"
  shows "POST env data = raise (Uncaught ''TypeError'')"
  using assms by (simp add: POST_def extraction_phase_def read_corrected_def)

lemma POST_no_image:
  assumes "data_text data = None" and "data_image data = None"
  shows "POST env data =
     and_then (translate_block env data False None None (read_source data)) (\<lambda>tr.
     get_json None tr ''unk'')"
  using assms
  by (simp add: POST_def extraction_phase_def read_corrected_def image_block_def
        corrected_block_def Let_def)

lemma POST_image_invalid:
  assumes "data_text data = None" and "data_image data = Some img"
    and "validate_upload img (data_filetype data) = Inl e"
  shows "POST env data = raise e"
  using assms
  by (simp add: POST_def extraction_phase_def read_corrected_def image_block_def Let_def)

lemma POST_image_valid:
  assumes "data_text data = None" and "data_image data = Some img"
    and "validate_upload img (data_filetype data) = Inr (v, ft)"
  shows "POST env data =
     and_then (store_and_extract env v ft (read_source data)) (\<lambda>(tfi, dl).
     and_then (translate_block env data False None tfi (read_source data)) (\<lambda>tr.
     get_json tfi tr dl))"
  using assms
  by (simp add: POST_def extraction_phase_def read_corrected_def image_block_def
        corrected_block_def and_then_assoc case_prod_unfold Let_def)

lemma sat_tail:
  "sat (and_then (translate_block env data c ct tfi sl) (\<lambda>tr. get_json (if c then ct else tfi) tr d))
       (tail_post data (if c then ct else tfi) sl d)"
  unfolding tail_post_def by (intro sat_seq sat_translate_block sat_get_json)

lemma sat_POST_image:
  assumes "data_text data = None" and "data_image data = Some img"
    and "validate_upload img (data_filetype data) = Inr (v, ft)"
  shows "sat (POST env data) (image_run data v ft)"
  unfolding POST_image_valid[OF assms] image_run_def
  by (intro sat_seq sat_store_and_extract)
     (auto intro: sat_tail[where c=False, simplified])

lemma sat_POST_text:
  assumes "data_text data = Some b" and "ext_b64decode env b = Some ct"
  shows "sat (POST env data) (text_run data ct)"
  unfolding POST_text_mode[OF assms] text_run_def
  by (intro sat_seq sat_get_language sat_display_lang sat_tail[where c=True, simplified])

lemma sat_POST_no_image:
  assumes "data_text data = None" and "data_image data = None"
  shows "sat (POST env data) (tail_post data None (read_source data) ''unk'')"
  unfolding POST_no_image[OF assms]
  by (rule sat_tail[where c=False, simplified])

subsection \<open>Facts about the extraction and the end of the handler\<close>

lemma first_post_cases:
  assumes "first_post p sl r evs"
  obtains (none) "sl = None" "pass_post p None r evs"
  | (hint) s h where "sl = Some s" "supported_languages_tesseract s = Some h"
      "pass_post p (Some h) r evs"
  | (key) s where "sl = Some s" "supported_languages_tesseract s = None" "evs = []"
      "r = Inl (Uncaught ''KeyError'')"
  using assms by (auto simp: first_post_def split: option.splits)

lemma second_post_cases:
  assumes "second_post p sl t1 dl r evs"
  obtains (retry) h where "sl = None" "supported_languages_tesseract dl = Some h"
      "pass_post p (Some h) r evs"
  | (keep) "sl \<noteq> None \<or> supported_languages_tesseract dl = None" "evs = []" "r = Inr t1"
  using assms by (auto simp: second_post_def split: option.splits if_splits)

lemma display_post_cases:
  assumes "display_post g r evs"
  obtains (same) "g \<in> set supported_languages" "evs = []" "r = Inr g"
  | (name) "g \<notin> set supported_languages" "name_post g r evs"
  using assms by (auto simp: display_post_def split: if_splits)

lemmas extract_elims = first_post_cases second_post_cases display_post_cases
lemmas extract_defs = extract_post_def seq_post_def pass_post_def lang_post_def name_post_def

lemma extract_ocr_faults:
  assumes "extract_post p sl r E"
  shows "(EvOcr q h (Some []) \<in> set E \<longrightarrow> r = Inl (NotFound ''No text detected in image.''))
       \<and> (EvOcr q h None \<in> set E \<longrightarrow> r = Inl (InternalError ''Could not extract text from image.''))"
  using assms by (auto simp: extract_defs elim!: extract_elims)

lemma extract_kinds:
  assumes "extract_post p sl r E" and "e \<in> set E"
  shows "is_open e \<or> is_ocr e \<or> is_detect e \<or> is_languages e"
  using assms by (auto simp: extract_defs elim!: extract_elims)


lemma extract_detect_once:
  assumes "extract_post p sl r E"
  shows "length (filter is_detect E) \<le> 1"
    and "E = A @ EvDetect t a # B \<Longrightarrow> \<exists>h. A = [EvOpen p True, EvOcr p h (Some t)]"
  using assms by (auto simp: extract_defs Cons_eq_append_conv append_eq_Cons_conv elim!: extract_elims)

lemma extract_success:
  assumes "extract_post p sl (Inr (t, d)) E"
  shows "\<exists>t1 a g R N.
     guess a = Some g \<and> t1 \<noteq> [] \<and> t \<noteq> [] \<and> p \<noteq> []
     \<and> E = [EvOpen p True, EvOcr p (Option.bind sl supported_languages_tesseract) (Some t1),
            EvDetect t1 a] @ R @ N
     \<and> (sl = None \<and> supported_languages_tesseract g \<noteq> None
          \<and> R = [EvOpen p True, EvOcr p (supported_languages_tesseract g) (Some t)]
        \<or> (sl \<noteq> None \<or> supported_languages_tesseract g = None) \<and> R = [] \<and> t = t1)
     \<and> (g \<in> set supported_languages \<and> N = [] \<and> d = g
        \<or> g \<notin> set supported_languages
          \<and> (\<exists>dict. N = [EvLanguages (Some dict)] \<and> d = display_name dict g))"
  using assms by (auto simp: extract_defs elim!: extract_elims)

lemma store_post_shape:
  assumes "store_post v ft sl r evs"
  shows "\<exists>u out rE E. extract_post (image_path u ft) sl rE E
           \<and> evs = EvUuid u # EvStore (image_path u ft) v out # E
           \<and> r = (case rE of
                    Inl e \<Rightarrow> Inl e
                  | Inr (t, d) \<Rightarrow>
                      (case out of
                         StoreRaised c \<Rightarrow> Inl (InternalError ''Server: Could not store image.'')
                       | Stored \<Rightarrow> Inr (Some t, d)))"
  using assms unfolding store_post_def seq_post_def by fastforce

lemma image_run_cases:
  assumes "image_run data v ft r evs"
  obtains u out rE E T where
    "extract_post (image_path u ft) (read_source data) rE E"
    "evs = EvUuid u # EvStore (image_path u ft) v out # E @ T"
    "(\<exists>e. rE = Inl e \<and> r = Inl e \<and> T = [])
     \<or> (\<exists>t d c. rE = Inr (t, d) \<and> out = StoreRaised c \<and> T = []
          \<and> r = Inl (InternalError ''Server: Could not store image.''))
     \<or> (\<exists>t d. rE = Inr (t, d) \<and> out = Stored
          \<and> tail_post data (Some t) (read_source data) d r T)"
proof -
  from assms consider
    (failed) e where "r = Inl e" "store_post v ft (read_source data) (Inl e) evs"
  | (stored) tfi dl evs1 T where "store_post v ft (read_source data) (Inr (tfi, dl)) evs1"
      "tail_post data tfi (read_source data) dl r T" "evs = evs1 @ T"
    unfolding image_run_def seq_post_def by auto
  then show thesis
  proof cases
    case failed
    from store_post_shape[OF failed(2)] obtain u out rE E where
      E: "extract_post (image_path u ft) (read_source data) rE E"
      and evs: "evs = EvUuid u # EvStore (image_path u ft) v out # E"
      and r: "Inl e = (case rE of
                    Inl e \<Rightarrow> Inl e
                  | Inr (t, d) \<Rightarrow>
                      (case out of
                         StoreRaised c \<Rightarrow> Inl (InternalError ''Server: Could not store image.'')
                       | Stored \<Rightarrow> Inr (Some t, d)))"
      by blast
    show thesis
      by (rule that[OF E, of out "[]"])
         (use evs r failed(1) in \<open>auto split: sum.splits store_outcome.splits\<close>)
  next
    case stored
    from store_post_shape[OF stored(1)] obtain u out rE E where
      E: "extract_post (image_path u ft) (read_source data) rE E"
      and evs1: "evs1 = EvUuid u # EvStore (image_path u ft) v out # E"
      and r: "Inr (tfi, dl) = (case rE of
                    Inl e \<Rightarrow> Inl e
                  | Inr (t, d) \<Rightarrow>
                      (case out of
                         StoreRaised c \<Rightarrow> Inl (InternalError ''Server: Could not store image.'')
                       | Stored \<Rightarrow> Inr (Some t, d)))"
      by blast
    show thesis
      by (rule that[OF E, of out T])
         (use evs1 r stored(2,3) in \<open>auto split: sum.splits store_outcome.splits\<close>)
  qed
qed

lemma tail_events:
  assumes "tail_post data txt sl d r T"
  shows "T = [] \<or> (\<exists>t tg x. T = [EvTranslate t (lower tg) sl x] \<and> txt = Some t
           \<and> data_target data = Some tg \<and> lower tg \<in> set supported_languages)"
  using assms
  by (auto simp: tail_post_def target_post_def seq_post_def transl_post_def json_post_def
           split: option.splits if_splits)

lemma tail_success:
  assumes "tail_post data txt sl d (Inr resp) T"
  shows "\<exists>t tg tr. txt = Some t \<and> data_target data = Some tg
           \<and> lower tg \<in> set supported_languages
           \<and> T = [EvTranslate t (lower tg) sl (Some tr)]
           \<and> resp = \<lparr>detected = d, resp_text = t, translation = tr\<rparr>"
  using assms
  by (auto simp: tail_post_def target_post_def seq_post_def transl_post_def json_post_def
           split: option.splits if_splits)

lemma tail_bad_target:
  assumes "tail_post data txt sl d r T"
    and "\<forall>tg. data_target data = Some tg \<longrightarrow> lower tg \<notin> set supported_languages"
  shows "T = [] \<and> r = Inl (BadRequest (if data_target data = None
            then ''No language to translate into specified.''
            else ''This target language is not supported.''))"
  using assms
  by (auto simp: tail_post_def target_post_def seq_post_def transl_post_def json_post_def
           split: option.splits if_splits)

lemma image_path_nonempty [simp]: "image_path u ft \<noteq> []"
  by (simp add: image_path_def)

lemma POST_image_cases:
  assumes "data_text data = None" and "data_image data = Some img"
  obtains (invalid) e where "validate_upload img (data_filetype data) = Inl e"
      "POST env data w = (Inl e, w)"
  | (valid) v ft u out rE E T where "validate_upload img (data_filetype data) = Inr (v, ft)"
      "extract_post (image_path u ft) (read_source data) rE E"
      "events (POST env data) w = EvUuid u # EvStore (image_path u ft) v out # E @ T"
      "(\<exists>e. rE = Inl e \<and> outcome (POST env data) w = Inl e \<and> T = [])
       \<or> (\<exists>t d c. rE = Inr (t, d) \<and> out = StoreRaised c \<and> T = []
            \<and> outcome (POST env data) w = Inl (InternalError ''Server: Could not store image.''))
       \<or> (\<exists>t d. rE = Inr (t, d) \<and> out = Stored
            \<and> tail_post data (Some t) (read_source data) d (outcome (POST env data) w) T)"
proof (cases "validate_upload img (data_filetype data)")
  case (Inl e)
  with POST_image_invalid[OF assms Inl, of env] invalid show ?thesis
    by (simp add: raise_def)
next
  case (Inr x)
  obtain v ft where x: "x = (v, ft)" by (cases x)
  from satD(1)[OF sat_POST_image[OF assms Inr[unfolded x]], of env w]
  show ?thesis
    by (rule image_run_cases) (rule valid[OF Inr[unfolded x]])
qed

lemma tail_cases:
  assumes "tail_post data txt sl d r T"
  obtains (rejected) msg where "T = []" "r = Inl (BadRequest msg)"
      "\<forall>tg. data_target data = Some tg \<longrightarrow> lower tg \<notin> set supported_languages"
  | (no_text) tg msg where "data_target data = Some tg" "lower tg \<in> set supported_languages"
      "T = []" "r = Inl (InternalError msg)"
  | (failed) tg t x msg where "data_target data = Some tg" "lower tg \<in> set supported_languages"
      "txt = Some t" "T = [EvTranslate t (lower tg) sl x]" "r = Inl (InternalError msg)"
  | (translated) tg t tr where "data_target data = Some tg" "lower tg \<in> set supported_languages"
      "txt = Some t" "T = [EvTranslate t (lower tg) sl (Some tr)]"
      "r = Inr \<lparr>detected = d, resp_text = t, translation = tr\<rparr>"
  using assms
  by (auto simp: tail_post_def target_post_def seq_post_def transl_post_def json_post_def
           split: option.splits if_splits)

lemmas text_defs = text_run_def seq_post_def lang_post_def name_post_def

lemma text_kinds:
  assumes "text_run data ct r evs" and "e \<in> set evs"
  shows "is_detect e \<or> is_languages e \<or> is_translate e"
  using assms by (auto simp: text_defs elim!: display_post_cases tail_cases)


lemma events_unchanged: "m w = (r, w) \<Longrightarrow> events m w = []"
  by (simp add: events_def)

lemma lower_jpg: "lower ''jpg'' = ''jpg''"
  by (simp add: lower_def lower_char_def)

lemma lower_de: "lower ''de'' = ''de''"
  by (simp add: lower_def lower_char_def)

lemma validate_upload_ok:
  assumes "validate_upload (Upload v fn) ftype = Inr (v', ft)"
  shows "v' = v \<and> v \<noteq> [] \<and> (\<exists>ft0. ftype = Some ft0 \<and> ft = lower ft0)"
  using assms by (auto simp: validate_upload_def split: option.splits if_splits)

lemma read_source_None [simp]: "data_source data = None \<Longrightarrow> read_source data = None"
  by (simp add: read_source_def)

lemma extract_retry:
  assumes "extract_post p None r E" and "EvDetect t1 a \<in> set E" and "guess a = Some g"
    and "supported_languages_tesseract g = Some h2" and "p \<noteq> []"
  shows "E = [EvOpen p True, EvOcr p None (Some t1), EvDetect t1 a, EvOpen p False]
       \<or> (\<exists>x rest. E = [EvOpen p True, EvOcr p None (Some t1), EvDetect t1 a,
                         EvOpen p True, EvOcr p (Some h2) x] @ rest)"
  using assms by (auto simp: extract_defs elim!: extract_elims)

lemma tail_translate_only:
  assumes "(\<exists>e. rE = Inl e \<and> r = Inl e \<and> T = [])
       \<or> (\<exists>t d c. rE = Inr (t, d) \<and> out = StoreRaised c \<and> T = []
            \<and> r = Inl (InternalError ''Server: Could not store image.''))
       \<or> (\<exists>t d. rE = Inr (t, d) \<and> out = Stored \<and> tail_post data (Some t) sl d r T)"
  shows "T = [] \<or> (\<exists>t tg x. T = [EvTranslate t tg sl x])"
  using assms tail_events[of data _ sl _ r T] by blast

lemma english_guess_success:
  assumes E: "extract_post p None (Inr (t, d)) E"
    and dE: "EvDetect t1 (DetectLang ''en'') \<in> set E"
  shows "d = ''en'' \<and> E = [EvOpen p True, EvOcr p None (Some t1), EvDetect t1 (DetectLang ''en''),
        EvOpen p True, EvOcr p (Some ''eng'') (Some t)]"
  using extract_success[OF E] dE
  by (auto simp: supported_languages_def supported_languages_tesseract_def)

lemma extract_open_failed:
  assumes "extract_post p sl r E" and "EvOpen q False \<in> set E"
  shows "r = Inl (InternalError ''Could not open image.'')"
  using assms by (auto simp: extract_defs elim!: extract_elims)

lemma sample_run:
  "POST base_env (image_request ''JPG'' None (Some ''de'')) w0 =
     (Inr \<lparr>detected = ''en'', resp_text = ''Hello world'', translation = ''Hallo Welt''\<rparr>,
      \<lparr>files = [''uploads/0001.jpg'' \<mapsto> ''JPG''],
       trace = [EvUuid ''0001'', EvStore ''uploads/0001.jpg'' ''JPG'' Stored,
         EvOpen ''uploads/0001.jpg'' True,
         EvOcr ''uploads/0001.jpg'' None (Some ''Helo wor1d''),
         EvDetect ''Helo wor1d'' (DetectLang ''en''),
         EvOpen ''uploads/0001.jpg'' True,
         EvOcr ''uploads/0001.jpg'' (Some ''eng'') (Some ''Hello world''),
         EvTranslate ''Hello world'' ''de'' None (Some ''Hallo Welt'')]\<rparr>)"
  by (simp add: model_defs base_env_def image_request_def w0_def Let_def)

lemma sample_events:
  "events (POST base_env (image_request ''JPG'' None (Some ''de''))) w0 =
     [EvUuid ''0001'', EvStore ''uploads/0001.jpg'' ''JPG'' Stored,
      EvOpen ''uploads/0001.jpg'' True,
      EvOcr ''uploads/0001.jpg'' None (Some ''Helo wor1d''),
      EvDetect ''Helo wor1d'' (DetectLang ''en''),
      EvOpen ''uploads/0001.jpg'' True,
      EvOcr ''uploads/0001.jpg'' (Some ''eng'') (Some ''Hello world''),
      EvTranslate ''Hello world'' ''de'' None (Some ''Hallo Welt'')]"
  by (simp add: events_def sample_run) (simp add: w0_def)

lemma sample_outcome:
  "outcome (POST base_env (image_request ''JPG'' None (Some ''de''))) w0 =
     Inr \<lparr>detected = ''en'', resp_text = ''Hello world'', translation = ''Hallo Welt''\<rparr>"
  by (simp add: outcome_def sample_run)

subsection \<open>Facts for the claims\<close>

lemma extract_detect_shape:
  assumes "extract_post p sl r E" and "EvDetect t a \<in> set E"
  shows "\<exists>h rest. E = [EvOpen p True, EvOcr p h (Some t), EvDetect t a] @ rest
           \<and> (\<forall>e \<in> set rest. \<not> is_detect e)"
  using assms by (auto simp: extract_defs elim!: extract_elims)

lemma extract_opens_path:
  assumes "extract_post p sl r E"
  shows "EvOpen p True \<in> set E \<or> EvOpen p False \<in> set E \<or> p = []
       \<or> (\<exists>s. sl = Some s \<and> supported_languages_tesseract s = None)"
  using assms by (auto simp: extract_defs elim!: extract_elims)

lemma extract_hints:
  assumes "extract_post p None r E" and "EvOcr q h x \<in> set E"
  shows "h = None
       \<or> (\<exists>t a g. EvDetect t a \<in> set E \<and> guess a = Some g \<and> h = supported_languages_tesseract g)"
  using assms
  by (auto simp: extract_defs elim!: extract_elims)

lemma text_success:
  assumes "text_run data ct (Inr resp) evs"
  shows "\<exists>a g tg tr N d. guess a = Some g \<and> data_target data = Some tg
      \<and> lower tg \<in> set supported_languages
      \<and> evs = EvDetect ct a # N @ [EvTranslate ct (lower tg) (read_source data) (Some tr)]
      \<and> resp = \<lparr>detected = d, resp_text = ct, translation = tr\<rparr>
      \<and> (g \<in> set supported_languages \<and> N = [] \<and> d = g
         \<or> g \<notin> set supported_languages
           \<and> (\<exists>dict. N = [EvLanguages (Some dict)] \<and> d = display_name dict g))"
  using assms by (auto simp: text_defs elim!: display_post_cases tail_cases)

lemma text_translate:
  assumes "text_run data ct r evs" and "EvTranslate txt tg src x \<in> set evs"
  shows "txt = ct \<and> src = read_source data
       \<and> (\<exists>tg0. data_target data = Some tg0 \<and> tg = lower tg0
             \<and> lower tg0 \<in> set supported_languages)"
  using assms by (auto simp: text_defs elim!: display_post_cases tail_cases)

lemma text_detect:
  assumes "text_run data ct r evs" and "EvDetect t a \<in> set evs"
  shows "t = ct"
  using assms by (auto simp: text_defs elim!: display_post_cases tail_cases)

lemma text_first:
  assumes "text_run data ct r evs" and "ct \<noteq> []"
  shows "\<exists>a rest. evs = EvDetect ct a # rest"
  using assms by (auto simp: text_defs elim!: display_post_cases tail_cases)

lemma display_name_unsupported: "display_name dict g \<notin> set supported_languages"
  by (auto simp: display_name_def supported_languages_def split: option.splits)

lemma POST_cases:
  obtains (undecodable) b where "data_text data = Some b" "ext_b64decode env b = None"
      "POST env data w = (Inl (Uncaught ''TypeError''), w)"
  | (corrected) b ct where "data_text data = Some b" "ext_b64decode env b = Some ct"
      "text_run data ct (outcome (POST env data) w) (events (POST env data) w)"
      "trace (snd (POST env data w)) = trace w @ events (POST env data) w"
      "(\<forall>e \<in> set (events (POST env data) w). \<not> is_store e)
         \<Longrightarrow> files (snd (POST env data w)) = files w"
  | (no_image) "data_text data = None" "data_image data = None"
      "tail_post data None (read_source data) ''unk''
         (outcome (POST env data) w) (events (POST env data) w)"
  | (invalid) img e where "data_text data = None" "data_image data = Some img"
      "validate_upload img (data_filetype data) = Inl e" "POST env data w = (Inl e, w)"
  | (valid) img v ft u out rE E T where "data_text data = None" "data_image data = Some img"
      "validate_upload img (data_filetype data) = Inr (v, ft)"
      "extract_post (image_path u ft) (read_source data) rE E"
      "events (POST env data) w = EvUuid u # EvStore (image_path u ft) v out # E @ T"
      "(\<exists>e. rE = Inl e \<and> outcome (POST env data) w = Inl e \<and> T = [])
       \<or> (\<exists>t d c. rE = Inr (t, d) \<and> out = StoreRaised c \<and> T = []
            \<and> outcome (POST env data) w = Inl (InternalError ''Server: Could not store image.''))
       \<or> (\<exists>t d. rE = Inr (t, d) \<and> out = Stored
            \<and> tail_post data (Some t) (read_source data) d (outcome (POST env data) w) T)"
proof (cases "data_text data")
  case None
  show ?thesis
  proof (cases "data_image data")
    case n: None
    from no_image[OF None n satD(1)[OF sat_POST_no_image[OF None n]]] show ?thesis .
  next
    case (Some img)
    from None Some show ?thesis
    proof (cases rule: POST_image_cases[where env=env and w=w])
      case (invalid e)
      show ?thesis by (rule that(4)[OF None Some invalid])
    next
      case (valid v ft u out rE E T)
      show ?thesis by (rule that(5)[OF None Some valid])
    qed
  qed
next
  case (Some b)
  show ?thesis
  proof (cases "ext_b64decode env b")
    case None
    from undecodable[OF Some None] POST_text_undecodable[OF Some None] show ?thesis
      by (simp add: raise_def)
  next
    case s: (Some ct)
    note st = sat_POST_text[OF Some s]
    from corrected[OF Some s satD(1)[OF st] satD(2)[OF st] satD(3)[OF st]] show ?thesis
      by blast
  qed
qed

lemma read_source_supported:
  "read_source data = Some s \<Longrightarrow> s \<in> set supported_languages"
  by (auto simp: read_source_def split: option.splits if_splits)

lemma supported_has_hint:
  "s \<in> set supported_languages \<Longrightarrow> supported_languages_tesseract s \<noteq> None"
  by (auto simp: supported_languages_def supported_languages_tesseract_def)

lemma POST_store_raised:
  assumes "data_text data = None" and "data_image data = Some img"
    and "validate_upload img (data_filetype data) = Inr (v, ft)"
    and "ext_store env (log (EvUuid (ext_uuid4 env w)) w) (image_path (ext_uuid4 env w) ft) v
           = StoreRaised c"
  shows "POST env data w =
     (case extract_and_detect env (image_path (ext_uuid4 env w) ft) (read_source data)
             (snd (call_store env (image_path (ext_uuid4 env w) ft) v (snd (call_uuid4 env w)))) of
        (Inl e, w') \<Rightarrow> (Inl e, w')
      | (Inr x, w') \<Rightarrow> (Inl (InternalError ''Server: Could not store image.''), w'))"
  unfolding POST_image_valid[OF assms(1-3)]
  using assms(4)
  by (simp add: store_and_extract_def and_then_def call_uuid4_def call_store_def Let_def
        raise_def split: prod.split sum.split)

lemma translate_block_bad_target:
  assumes "data_target data = None
           \<or> (\<exists>tg. data_target data = Some tg \<and> lower tg \<notin> set supported_languages)"
  shows "translate_block env data c ct tfi sl =
     raise (BadRequest (if data_target data = None
        then ''No language to translate into specified.''
        else ''This target language is not supported.''))"
  using assms unfolding translate_block_eq by auto

lemma text_no_translate:
  assumes "text_run data ct r evs"
    and "\<forall>tg. data_target data = Some tg \<longrightarrow> lower tg \<notin> set supported_languages"
  shows "\<forall>e \<in> set evs. \<not> is_translate e"
  using assms by (auto simp: text_defs elim!: display_post_cases tail_cases)

lemma extraction_kind_not_translate:
  "is_open e \<or> is_ocr e \<or> is_detect e \<or> is_languages e \<Longrightarrow> \<not> is_translate e"
  by (cases e) auto

lemma read_source_unsupported:
  "data_source data = Some s \<Longrightarrow> lower s \<notin> set supported_languages \<Longrightarrow> read_source data = None"
  by (simp add: read_source_def)

lemma source_update_blocks:
  "read_corrected env (data\<lparr>data_source := x\<rparr>) = read_corrected env data"
  "image_block env (data\<lparr>data_source := x\<rparr>) c sl = image_block env data c sl"
  "translate_block env (data\<lparr>data_source := x\<rparr>) c ct tfi sl
     = translate_block env data c ct tfi sl"
  "read_source (data\<lparr>data_source := None\<rparr>) = None"
  by (simp_all add: read_corrected_def image_block_def translate_block_def read_source_def
        split: option.split)

lemma POST_source_irrelevant:
  assumes "read_source data = None"
  shows "POST env data = POST env (data\<lparr>data_source := None\<rparr>)"
  using assms by (simp add: POST_def extraction_phase_def source_update_blocks)

lemma image_update_blocks:
  "read_corrected env (data\<lparr>data_image := i, data_filetype := f\<rparr>) = read_corrected env data"
  "translate_block env (data\<lparr>data_image := i, data_filetype := f\<rparr>) c ct tfi sl
     = translate_block env data c ct tfi sl"
  "read_source (data\<lparr>data_image := i, data_filetype := f\<rparr>) = read_source data"
  by (simp_all add: read_corrected_def translate_block_def read_source_def split: option.split)

lemma read_corrected_flag:
  assumes "data_text data = Some b"
  shows "read_corrected env data = raise (Uncaught ''TypeError'')
       \<or> (\<exists>t. read_corrected env data = ret (Some t, True))"
  using assms by (cases "ext_b64decode env b") (auto simp: read_corrected_def)

lemma POST_image_irrelevant:
  assumes "data_text data = Some b"
  shows "POST env (data\<lparr>data_image := i, data_filetype := f\<rparr>) = POST env data"
  using read_corrected_flag[OF assms, of env]
  by (auto simp: POST_def extraction_phase_def image_update_blocks)

lemma kind_not_store:
  "is_detect e \<or> is_languages e \<or> is_translate e \<Longrightarrow> \<not> is_store e"
  by (cases e) auto

lemma read_source_kept:
  "data_source data = Some s \<Longrightarrow> lower s \<in> set supported_languages
     \<Longrightarrow> read_source data = Some (lower s)"
  by (simp add: read_source_def)

lemmas sample_defs = base_env_def blank_page_env_def broken_engine_env_def full_disk_env_def
  no_disk_env_def german_env_def image_request_def text_request_def w0_def

lemma blank_page_run:
  "POST blank_page_env (image_request ''JPG'' None (Some ''de'')) w0 =
     (Inl (NotFound ''No text detected in image.''),
      \<lparr>files = [''uploads/0001.jpg'' \<mapsto> ''JPG''],
       trace = [EvUuid ''0001'', EvStore ''uploads/0001.jpg'' ''JPG'' Stored,
         EvOpen ''uploads/0001.jpg'' True,
         EvOcr ''uploads/0001.jpg'' None (Some [])]\<rparr>)"
  by (simp add: model_defs sample_defs Let_def)

lemma broken_engine_run:
  "POST broken_engine_env (image_request ''JPG'' None (Some ''fr'')) w0 =
     (Inl (InternalError ''Could not extract text from image.''),
      \<lparr>files = [''uploads/0001.jpg'' \<mapsto> ''JPG''],
       trace = [EvUuid ''0001'', EvStore ''uploads/0001.jpg'' ''JPG'' Stored,
         EvOpen ''uploads/0001.jpg'' True,
         EvOcr ''uploads/0001.jpg'' None None]\<rparr>)"
  by (simp add: model_defs sample_defs Let_def)

lemma full_disk_run:
  "POST full_disk_env (image_request ''JPG'' None (Some ''de'')) w0 =
     (Inl (InternalError ''Server: Could not store image.''),
      \<lparr>files = [''uploads/0001.jpg'' \<mapsto> ''JP''],
       trace = [EvUuid ''0001'', EvStore ''uploads/0001.jpg'' ''JPG'' (StoreRaised (Some ''JP'')),
         EvOpen ''uploads/0001.jpg'' True,
         EvOcr ''uploads/0001.jpg'' None (Some ''Helo wor1d''),
         EvDetect ''Helo wor1d'' (DetectLang ''en''),
         EvOpen ''uploads/0001.jpg'' True,
         EvOcr ''uploads/0001.jpg'' (Some ''eng'') (Some ''Hello world'')]\<rparr>)"
  by (simp add: model_defs sample_defs Let_def)

lemma unsupported_target_phase:
  "extraction_phase base_env (image_request ''JPG'' None (Some ''fr'')) w0 =
     (Inr (None, False, None, Some ''Hello world'', ''en''),
      \<lparr>files = [''uploads/0001.jpg'' \<mapsto> ''JPG''],
       trace = [EvUuid ''0001'', EvStore ''uploads/0001.jpg'' ''JPG'' Stored,
         EvOpen ''uploads/0001.jpg'' True,
         EvOcr ''uploads/0001.jpg'' None (Some ''Helo wor1d''),
         EvDetect ''Helo wor1d'' (DetectLang ''en''),
         EvOpen ''uploads/0001.jpg'' True,
         EvOcr ''uploads/0001.jpg'' (Some ''eng'') (Some ''Hello world'')]\<rparr>)"
  by (simp add: model_defs sample_defs Let_def)

lemma german_run:
  "POST german_env (text_request ''SGFsbG8gV2VsdA=='' (Some ''en'') (Some ''en'')) w0 =
     (Inr \<lparr>detected = ''de'', resp_text = ''Hallo Welt'', translation = ''Hello world''\<rparr>,
      \<lparr>files = Map.empty,
       trace = [EvDetect ''Hallo Welt'' (DetectLang ''de''),
         EvTranslate ''Hallo Welt'' ''en'' (Some ''en'') (Some ''Hello world'')]\<rparr>)"
  by (simp add: model_defs sample_defs Let_def)

lemma no_disk_extract:
  "extract_and_detect no_disk_env ''uploads/0001.jpg'' None
     (snd (call_store no_disk_env ''uploads/0001.jpg'' ''JPG'' (snd (call_uuid4 no_disk_env w0)))) =
     (Inl (InternalError ''Could not open image.''),
      \<lparr>files = Map.empty,
       trace = [EvUuid ''0001'', EvStore ''uploads/0001.jpg'' ''JPG'' (StoreRaised None),
         EvOpen ''uploads/0001.jpg'' False]\<rparr>)"
  by (simp add: model_defs sample_defs Let_def)

lemma trace_w0: "trace w0 = []"
  by (simp add: w0_def)

lemma blank_page_events:
  "events (POST blank_page_env (image_request ''JPG'' None (Some ''de''))) w0 =
     [EvUuid ''0001'', EvStore ''uploads/0001.jpg'' ''JPG'' Stored,
      EvOpen ''uploads/0001.jpg'' True, EvOcr ''uploads/0001.jpg'' None (Some [])]"
  by (simp add: events_def blank_page_run trace_w0)

lemma broken_engine_events:
  "events (POST broken_engine_env (image_request ''JPG'' None (Some ''fr''))) w0 =
     [EvUuid ''0001'', EvStore ''uploads/0001.jpg'' ''JPG'' Stored,
      EvOpen ''uploads/0001.jpg'' True, EvOcr ''uploads/0001.jpg'' None None]"
  by (simp add: events_def broken_engine_run trace_w0)

lemma lower_fr: "lower ''fr'' = ''fr''"
  by (simp add: lower_def lower_char_def)

lemma lower_en: "lower ''en'' = ''en''"
  by (simp add: lower_def lower_char_def)

lemma french_source_run:
  "POST base_env (image_request ''JPG'' (Some ''fr'') (Some ''de'')) w0 =
     (Inr \<lparr>detected = ''en'', resp_text = ''Hello world'', translation = ''Hallo Welt''\<rparr>,
      \<lparr>files = [''uploads/0001.jpg'' \<mapsto> ''JPG''],
       trace = [EvUuid ''0001'', EvStore ''uploads/0001.jpg'' ''JPG'' Stored,
         EvOpen ''uploads/0001.jpg'' True,
         EvOcr ''uploads/0001.jpg'' None (Some ''Helo wor1d''),
         EvDetect ''Helo wor1d'' (DetectLang ''en''),
         EvOpen ''uploads/0001.jpg'' True,
         EvOcr ''uploads/0001.jpg'' (Some ''eng'') (Some ''Hello world''),
         EvTranslate ''Hello world'' ''de'' None (Some ''Hallo Welt'')]\<rparr>)"
  by (simp add: model_defs sample_defs Let_def)

subsection \<open>The claims\<close>

text \<open>
  C1, as the code has it. The claim says that a corrected-text request with a declared
  source \<open>s\<close> in en, de, it answers with \<open>s\<close> as detected language. Lines 161 to 165
  never read the declared source: the detected language is what the detector says of
  the corrected text. Here the request declares en, the detector answers de, and the
  response says de.
\<close>

theorem declared_source_counterexample:
  "data_source (text_request ''SGFsbG8gV2VsdA=='' (Some ''en'') (Some ''en'')) = Some ''en''
   \<and> data_target (text_request ''SGFsbG8gV2VsdA=='' (Some ''en'') (Some ''en'')) = Some ''en''
   \<and> outcome (POST german_env (text_request ''SGFsbG8gV2VsdA=='' (Some ''en'') (Some ''en''))) w0
       = Inr \<lparr>detected = ''de'', resp_text = ''Hallo Welt'', translation = ''Hello world''\<rparr>
   \<and> detected \<lparr>detected = ''de'', resp_text = ''Hallo Welt'', translation = ''Hello world''\<rparr>
       \<noteq> ''en''"
  by (simp add: outcome_def german_run) (simp add: text_request_def)

text \<open>
  C1, amended. For a corrected-text request with a declared source \<open>s\<close> and a target
  \<open>t\<close>, both (lowered) in en, de, it: every call of the translator has the decoded text,
  the target \<open>t\<close> and the source \<open>s\<close>, never a detected language. When the request
  succeeds, the trace is the detection on the decoded text, the lookup of the language
  names when the guess is not a supported language, and one call of the translator; the
  detected language of the response is the detector's guess, or its display name when
  the guess is not supported, and it is \<open>s\<close> exactly when the detector guesses \<open>s\<close>.
\<close>

theorem declared_source_reaches_translator:
  assumes "data_text data = Some b"
    and "data_source data = Some s" and "lower s \<in> set supported_languages"
    and "data_target data = Some t" and "lower t \<in> set supported_languages"
  shows "(\<forall>txt tg src x. EvTranslate txt tg src x \<in> set (events (POST env data) w) \<longrightarrow>
            src = Some (lower s) \<and> tg = lower t \<and> ext_b64decode env b = Some txt)
     \<and> (\<forall>resp. outcome (POST env data) w = Inr resp \<longrightarrow>
          (\<exists>ct a g. ext_b64decode env b = Some ct \<and> resp_text resp = ct \<and> guess a = Some g
             \<and> (g \<in> set supported_languages \<and> detected resp = g
                  \<and> events (POST env data) w =
                      [EvDetect ct a,
                       EvTranslate ct (lower t) (Some (lower s)) (Some (translation resp))]
                \<or> g \<notin> set supported_languages
                  \<and> (\<exists>dict. detected resp = display_name dict g
                        \<and> events (POST env data) w =
                            [EvDetect ct a, EvLanguages (Some dict),
                             EvTranslate ct (lower t) (Some (lower s)) (Some (translation resp))]))
             \<and> (detected resp = lower s) = (g = lower s)))"
proof (cases "ext_b64decode env b")
  case None
  from POST_text_undecodable[OF assms(1) None] show ?thesis by simp
next
  case (Some ct)
  note sl = read_source_kept[OF assms(2,3)]
  note run = satD(1)[OF sat_POST_text[OF assms(1) Some], of w]
  have a: "src = Some (lower s) \<and> tg = lower t \<and> ext_b64decode env b = Some tx"
    if "EvTranslate tx tg src x \<in> set (events (POST env data) w)" for tx tg src x
    using text_translate[OF run that] sl assms(4) Some by auto
  have b: "\<exists>ct a g. ext_b64decode env b = Some ct \<and> resp_text resp = ct \<and> guess a = Some g
             \<and> (g \<in> set supported_languages \<and> detected resp = g
                  \<and> events (POST env data) w =
                      [EvDetect ct a,
                       EvTranslate ct (lower t) (Some (lower s)) (Some (translation resp))]
                \<or> g \<notin> set supported_languages
                  \<and> (\<exists>dict. detected resp = display_name dict g
                        \<and> events (POST env data) w =
                            [EvDetect ct a, EvLanguages (Some dict),
                             EvTranslate ct (lower t) (Some (lower s)) (Some (translation resp))]))
             \<and> (detected resp = lower s) = (g = lower s)"
    if r: "outcome (POST env data) w = Inr resp" for resp
  proof -
    from text_success[OF run[unfolded r]] obtain a g tr N d where
      g: "guess a = Some g"
      and ev: "events (POST env data) w =
         EvDetect ct a # N @ [EvTranslate ct (lower t) (Some (lower s)) (Some tr)]"
      and resp: "resp = \<lparr>detected = d, resp_text = ct, translation = tr\<rparr>"
      and d: "g \<in> set supported_languages \<and> N = [] \<and> d = g
         \<or> g \<notin> set supported_languages
           \<and> (\<exists>dict. N = [EvLanguages (Some dict)] \<and> d = display_name dict g)"
      unfolding sl using assms(4) by auto
    from d show ?thesis
    proof (elim disjE conjE exE)
      assume "g \<in> set supported_languages" "N = []" "d = g"
      with Some g ev resp show ?thesis by auto
    next
      fix dict
      assume n: "g \<notin> set supported_languages" "N = [EvLanguages (Some dict)]"
        "d = display_name dict g"
      have "display_name dict g \<noteq> lower s" "g \<noteq> lower s"
        using display_name_unsupported[of dict g] assms(3) n(1) by auto
      with Some g ev resp n show ?thesis by auto
    qed
  qed
  from a b show ?thesis by blast
qed

theorem declared_source_reaches_translator_witness:
  "data_text (text_request ''SGFsbG8gV2VsdA=='' (Some ''en'') (Some ''en'')) = Some ''SGFsbG8gV2VsdA==''
   \<and> data_source (text_request ''SGFsbG8gV2VsdA=='' (Some ''en'') (Some ''en'')) = Some ''en''
   \<and> lower ''en'' \<in> set supported_languages
   \<and> data_target (text_request ''SGFsbG8gV2VsdA=='' (Some ''en'') (Some ''en'')) = Some ''en''
   \<and> EvTranslate ''Hallo Welt'' ''en'' (Some ''en'') (Some ''Hello world'')
       \<in> set (events (POST german_env (text_request ''SGFsbG8gV2VsdA=='' (Some ''en'') (Some ''en''))) w0)
   \<and> Some ''en'' = Some (lower ''en'')
   \<and> ext_b64decode german_env ''SGFsbG8gV2VsdA=='' = Some ''Hallo Welt''
   \<and> outcome (POST german_env (text_request ''SGFsbG8gV2VsdA=='' (Some ''en'') (Some ''en''))) w0
       = Inr \<lparr>detected = ''de'', resp_text = ''Hallo Welt'', translation = ''Hello world''\<rparr>
   \<and> (\<exists>a g. guess a = Some g \<and> (''de'' = lower ''en'') = (g = lower ''en''))"
proof -
  let ?req = "text_request ''SGFsbG8gV2VsdA=='' (Some ''en'') (Some ''en'')"
  have h1: "data_text ?req = Some ''SGFsbG8gV2VsdA==''"
    and h2: "data_source ?req = Some ''en''"
    and h3: "lower ''en'' \<in> set supported_languages"
    and h4: "data_target ?req = Some ''en''"
    by (simp_all add: text_request_def lower_en supported_languages_def)
  have ev: "events (POST german_env ?req) w0 =
      [EvDetect ''Hallo Welt'' (DetectLang ''de''),
       EvTranslate ''Hallo Welt'' ''en'' (Some ''en'') (Some ''Hello world'')]"
    by (simp add: events_def german_run trace_w0)
  have oc: "outcome (POST german_env ?req) w0
       = Inr \<lparr>detected = ''de'', resp_text = ''Hallo Welt'', translation = ''Hello world''\<rparr>"
    by (simp add: outcome_def german_run)
  have tr: "EvTranslate ''Hallo Welt'' ''en'' (Some ''en'') (Some ''Hello world'')
       \<in> set (events (POST german_env ?req) w0)"
    by (simp add: ev)
  note inst = declared_source_reaches_translator[OF h1 h2 h3 h4 h3, of german_env w0]
  from inst[THEN conjunct1, rule_format, OF tr]
  have a: "Some ''en'' = Some (lower ''en'')
      \<and> ext_b64decode german_env ''SGFsbG8gV2VsdA=='' = Some ''Hallo Welt''"
    by blast
  from inst[THEN conjunct2, rule_format, OF oc] obtain a g where
    "guess a = Some g"
    "(detected \<lparr>detected = ''de'', resp_text = ''Hallo Welt'', translation = ''Hello world''\<rparr>
        = lower ''en'') = (g = lower ''en'')"
    by blast
  then have b: "\<exists>a g. guess a = Some g \<and> (''de'' = lower ''en'') = (g = lower ''en'')"
    by auto
  from h1 h2 h3 h4 tr a oc b show ?thesis by blast
qed



text \<open>
  C3, as the code has it. The scenario: an image request with file type jpg, target de
  and no source, whose first extraction (without hint) gives \<open>t1\<close> and whose detector
  guesses en. The claim says that no second pass is made. The handler does make one: en
  is a key of \<open>supported_languages_tesseract\<close>, so line 156 reads the image again with the
  hint eng. The run below, with collaborators that all succeed, shows both passes.
\<close>

theorem english_guess_counterexample:
  "data_filetype (image_request ''JPG'' None (Some ''de'')) = Some ''jpg''
   \<and> data_source (image_request ''JPG'' None (Some ''de'')) = None
   \<and> data_target (image_request ''JPG'' None (Some ''de'')) = Some ''de''
   \<and> events (POST base_env (image_request ''JPG'' None (Some ''de''))) w0 =
     [EvUuid ''0001'', EvStore ''uploads/0001.jpg'' ''JPG'' Stored,
      EvOpen ''uploads/0001.jpg'' True,
      EvOcr ''uploads/0001.jpg'' None (Some ''Helo wor1d''),
      EvDetect ''Helo wor1d'' (DetectLang ''en''),
      EvOpen ''uploads/0001.jpg'' True,
      EvOcr ''uploads/0001.jpg'' (Some ''eng'') (Some ''Hello world''),
      EvTranslate ''Hello world'' ''de'' None (Some ''Hallo Welt'')]"
  by (simp add: sample_events) (simp add: image_request_def)

text \<open>
  C3, amended. In that scenario the handler opens the image a second time; when the
  image opens, the engine is called with the hint eng. When the request succeeds, the
  trace is exactly: the identifier, the store, the first pass without hint, the
  detection on its text, the second pass with hint eng, and one call of the translator
  on the text of the second pass, with target de and no source; the response gives
  en as detected language.
\<close>

theorem english_guess_is_read_again:
  assumes "data_text data = None" and "data_image data = Some (Upload v fn)"
    and "data_filetype data = Some ''jpg''" and "data_source data = None"
    and "data_target data = Some ''de''"
    and "EvDetect t1 (DetectLang ''en'') \<in> set (events (POST env data) w)"
  shows "((\<exists>u out.
            events (POST env data) w =
              [EvUuid u, EvStore (image_path u ''jpg'') v out,
               EvOpen (image_path u ''jpg'') True,
               EvOcr (image_path u ''jpg'') None (Some t1),
               EvDetect t1 (DetectLang ''en''),
               EvOpen (image_path u ''jpg'') False])
          \<or> (\<exists>u out x rest.
            events (POST env data) w =
              [EvUuid u, EvStore (image_path u ''jpg'') v out,
               EvOpen (image_path u ''jpg'') True,
               EvOcr (image_path u ''jpg'') None (Some t1),
               EvDetect t1 (DetectLang ''en''),
               EvOpen (image_path u ''jpg'') True,
               EvOcr (image_path u ''jpg'') (Some ''eng'') x] @ rest))
       \<and> (\<forall>resp. outcome (POST env data) w = Inr resp \<longrightarrow>
            detected resp = ''en''
            \<and> (\<exists>u. events (POST env data) w =
                  [EvUuid u, EvStore (image_path u ''jpg'') v Stored,
                   EvOpen (image_path u ''jpg'') True,
                   EvOcr (image_path u ''jpg'') None (Some t1),
                   EvDetect t1 (DetectLang ''en''),
                   EvOpen (image_path u ''jpg'') True,
                   EvOcr (image_path u ''jpg'') (Some ''eng'') (Some (resp_text resp)),
                   EvTranslate (resp_text resp) ''de'' None (Some (translation resp))]))"
  using assms(1,2)
proof (cases rule: POST_image_cases[where env=env and w=w])
  case (invalid e)
  with assms(6) show ?thesis by (simp add: events_unchanged)
next
  case (valid v' ft u out rE E T)
  from validate_upload_ok[OF valid(1)] assms(3)
  have v: "v' = v" and ft: "ft = ''jpg''"
    by (simp_all add: lower_jpg)
  have sl: "read_source data = None"
    using assms(4) by simp
  note E = valid(2)[unfolded ft sl]
  note ev = valid(3)[unfolded v ft]
  note rel = valid(4)[unfolded sl]
  have T: "T = [] \<or> (\<exists>t tg x. T = [EvTranslate t tg None x])"
    by (rule tail_translate_only[OF rel])
  have dE: "EvDetect t1 (DetectLang ''en'') \<in> set E"
    using assms(6) T unfolding ev by auto
  have eng: "supported_languages_tesseract ''en'' = Some ''eng''"
    by (simp add: supported_languages_tesseract_def)
  have first: "(\<exists>u out.
            events (POST env data) w =
              [EvUuid u, EvStore (image_path u ''jpg'') v out,
               EvOpen (image_path u ''jpg'') True,
               EvOcr (image_path u ''jpg'') None (Some t1),
               EvDetect t1 (DetectLang ''en''),
               EvOpen (image_path u ''jpg'') False])
          \<or> (\<exists>u out x rest.
            events (POST env data) w =
              [EvUuid u, EvStore (image_path u ''jpg'') v out,
               EvOpen (image_path u ''jpg'') True,
               EvOcr (image_path u ''jpg'') None (Some t1),
               EvDetect t1 (DetectLang ''en''),
               EvOpen (image_path u ''jpg'') True,
               EvOcr (image_path u ''jpg'') (Some ''eng'') x] @ rest)"
  proof -
    have "E = [EvOpen (image_path u ''jpg'') True, EvOcr (image_path u ''jpg'') None (Some t1),
        EvDetect t1 (DetectLang ''en''), EvOpen (image_path u ''jpg'') False]
      \<or> (\<exists>x rest. E = [EvOpen (image_path u ''jpg'') True,
        EvOcr (image_path u ''jpg'') None (Some t1), EvDetect t1 (DetectLang ''en''),
        EvOpen (image_path u ''jpg'') True, EvOcr (image_path u ''jpg'') (Some ''eng'') x] @ rest)"
      using extract_retry[OF E dE _ eng] by simp
    then show ?thesis
  proof (elim disjE exE)
    assume s: "E = [EvOpen (image_path u ''jpg'') True, EvOcr (image_path u ''jpg'') None (Some t1),
      EvDetect t1 (DetectLang ''en''), EvOpen (image_path u ''jpg'') False]"
    from extract_open_failed[OF E, of "image_path u ''jpg''"]
    have "\<exists>e. rE = Inl e" unfolding s by simp
    with rel have "T = []" by auto
    with s show ?thesis unfolding ev by simp
  next
    fix x rest
    assume s: "E = [EvOpen (image_path u ''jpg'') True, EvOcr (image_path u ''jpg'') None (Some t1),
      EvDetect t1 (DetectLang ''en''), EvOpen (image_path u ''jpg'') True,
      EvOcr (image_path u ''jpg'') (Some ''eng'') x] @ rest"
    show ?thesis
      by (rule disjI2, rule exI[of _ u], rule exI[of _ out], rule exI[of _ x],
          rule exI[of _ "rest @ T"]) (simp add: ev s)
  qed
  qed
  have second: "detected resp = ''en''
            \<and> (\<exists>u. events (POST env data) w =
                  [EvUuid u, EvStore (image_path u ''jpg'') v Stored,
                   EvOpen (image_path u ''jpg'') True,
                   EvOcr (image_path u ''jpg'') None (Some t1),
                   EvDetect t1 (DetectLang ''en''),
                   EvOpen (image_path u ''jpg'') True,
                   EvOcr (image_path u ''jpg'') (Some ''eng'') (Some (resp_text resp)),
                   EvTranslate (resp_text resp) ''de'' None (Some (translation resp))])"
    if r: "outcome (POST env data) w = Inr resp" for resp
  proof -
    from rel r obtain t d where rE: "rE = Inr (t, d)" and out: "out = Stored"
      and tl: "tail_post data (Some t) None d (Inr resp) T"
      by auto
    from tail_success[OF tl] assms(5) obtain tr where
      TT: "T = [EvTranslate t ''de'' None (Some tr)]"
      and resp: "resp = \<lparr>detected = d, resp_text = t, translation = tr\<rparr>"
      by (auto simp: lower_de)
    from english_guess_success[OF E[unfolded rE] dE]
    show ?thesis by (simp add: ev TT resp out)
  qed
  from first second show ?thesis by blast
qed

theorem english_guess_is_read_again_witness:
  "data_text (image_request ''JPG'' None (Some ''de'')) = None
   \<and> data_image (image_request ''JPG'' None (Some ''de'')) = Some (Upload ''JPG'' (Some ''photo.jpg''))
   \<and> data_filetype (image_request ''JPG'' None (Some ''de'')) = Some ''jpg''
   \<and> data_source (image_request ''JPG'' None (Some ''de'')) = None
   \<and> data_target (image_request ''JPG'' None (Some ''de'')) = Some ''de''
   \<and> EvDetect ''Helo wor1d'' (DetectLang ''en'')
        \<in> set (events (POST base_env (image_request ''JPG'' None (Some ''de''))) w0)
   \<and> outcome (POST base_env (image_request ''JPG'' None (Some ''de''))) w0 =
        Inr \<lparr>detected = ''en'', resp_text = ''Hello world'', translation = ''Hallo Welt''\<rparr>
   \<and> (\<exists>u. events (POST base_env (image_request ''JPG'' None (Some ''de''))) w0 =
          [EvUuid u, EvStore (image_path u ''jpg'') ''JPG'' Stored,
           EvOpen (image_path u ''jpg'') True,
           EvOcr (image_path u ''jpg'') None (Some ''Helo wor1d''),
           EvDetect ''Helo wor1d'' (DetectLang ''en''),
           EvOpen (image_path u ''jpg'') True,
           EvOcr (image_path u ''jpg'') (Some ''eng'') (Some ''Hello world''),
           EvTranslate ''Hello world'' ''de'' None (Some ''Hallo Welt'')])"
proof -
  let ?req = "image_request ''JPG'' None (Some ''de'')"
  have h1: "data_text ?req = None"
    and h2: "data_image ?req = Some (Upload ''JPG'' (Some ''photo.jpg''))"
    and h3: "data_filetype ?req = Some ''jpg''"
    and h4: "data_source ?req = None"
    and h5: "data_target ?req = Some ''de''"
    by (simp_all add: image_request_def)
  have h6: "EvDetect ''Helo wor1d'' (DetectLang ''en'') \<in> set (events (POST base_env ?req) w0)"
    by (simp add: sample_events)
  from english_guess_is_read_again[OF h1 h2 h3 h4 h5 h6] sample_outcome
  have "\<exists>u. events (POST base_env ?req) w0 =
          [EvUuid u, EvStore (image_path u ''jpg'') ''JPG'' Stored,
           EvOpen (image_path u ''jpg'') True,
           EvOcr (image_path u ''jpg'') None (Some ''Helo wor1d''),
           EvDetect ''Helo wor1d'' (DetectLang ''en''),
           EvOpen (image_path u ''jpg'') True,
           EvOcr (image_path u ''jpg'') (Some ''eng'') (Some ''Hello world''),
           EvTranslate ''Hello world'' ''de'' None (Some ''Hallo Welt'')]"
    by fastforce
  with h1 h2 h3 h4 h5 h6 sample_outcome show ?thesis by blast
qed

text \<open>
  C4, as the code has it. The claim says that every request with a missing or
  unsupported target is answered with 400. The target is read only at line 167, after
  the extraction and the detection, and a fault raised before that line is the one the
  caller gets: here the target is fr, the OCR engine raises, and the answer is 500.
\<close>

theorem bad_target_counterexample:
  "data_target (image_request ''JPG'' None (Some ''fr'')) = Some ''fr''
   \<and> lower ''fr'' \<notin> set supported_languages
   \<and> outcome (POST broken_engine_env (image_request ''JPG'' None (Some ''fr''))) w0
       = Inl (InternalError ''Could not extract text from image.'')
   \<and> status (InternalError ''Could not extract text from image.'') = 500"
  by (simp add: outcome_def broken_engine_run)
     (simp add: image_request_def lower_fr supported_languages_def)

text \<open>
  C4, amended. For a request whose target is missing or (lowered) not in en, de, it:
  the handler first does all of lines 92 to 165 (\<open>extraction_phase\<close>: decoding,
  validation, storage, extraction, detection). When that phase raises a fault, the
  fault is the answer. When it ends, the answer is 400, with the message of line 172 or
  187, in the world that the phase left. The translator is never called and the request
  never succeeds.
\<close>

theorem bad_target_rejected_after_extraction:
  assumes "data_target data = None
           \<or> (\<exists>tg. data_target data = Some tg \<and> lower tg \<notin> set supported_languages)"
  shows "(\<forall>e w'. extraction_phase env data w = (Inl e, w') \<longrightarrow> POST env data w = (Inl e, w'))
     \<and> (\<forall>x w'. extraction_phase env data w = (Inr x, w') \<longrightarrow>
          (\<exists>e. POST env data w = (Inl e, w') \<and> status e = 400
             \<and> e = BadRequest (if data_target data = None
                    then ''No language to translate into specified.''
                    else ''This target language is not supported.'')))
     \<and> (\<forall>e \<in> set (events (POST env data) w). \<not> is_translate e)
     \<and> (\<exists>e. outcome (POST env data) w = Inl e)"
proof -
  note tb = translate_block_bad_target[OF assms]
  have bad: "\<forall>tg. data_target data = Some tg \<longrightarrow> lower tg \<notin> set supported_languages"
    using assms by auto
  have a: "POST env data w = (Inl e, w')" if "extraction_phase env data w = (Inl e, w')" for e w'
    using that by (simp add: POST_def and_then_def)
  have b: "\<exists>e. POST env data w = (Inl e, w') \<and> status e = 400
             \<and> e = BadRequest (if data_target data = None
                    then ''No language to translate into specified.''
                    else ''This target language is not supported.'')"
    if "extraction_phase env data w = (Inr x, w')" for x w'
  proof -
    obtain ct c sl tfi dl where x: "x = (ct, c, sl, tfi, dl)" by (cases x)
    show ?thesis
      using that unfolding x
      by (simp add: POST_def and_then_def[of "extraction_phase env data"] tb raise_def)
  qed
  have c: "\<forall>e \<in> set (events (POST env data) w). \<not> is_translate e"
  proof (cases rule: POST_cases[where env=env and data=data and w=w])
    case (undecodable b)
    then show ?thesis by (simp add: events_unchanged)
  next
    case (corrected b ct)
    from text_no_translate[OF corrected(3) bad] show ?thesis .
  next
    case no_image
    from tail_bad_target[OF no_image(3) bad] show ?thesis by simp
  next
    case (invalid img e)
    then show ?thesis by (simp add: events_unchanged)
  next
    case (valid img v ft u out rE E T)
    have "T = []"
      using valid(6) tail_bad_target[OF _ bad] by blast
    with extract_kinds[OF valid(4)] extraction_kind_not_translate show ?thesis
      unfolding valid(5) by auto
  qed
  have d: "\<exists>e. outcome (POST env data) w = Inl e"
  proof (cases "extraction_phase env data w")
    case (Pair r w')
    then show ?thesis
      using a[of _ w'] b[of _ w'] by (cases r) (auto simp: outcome_def)
  qed
  from a b c d show ?thesis by blast
qed

theorem bad_target_rejected_after_extraction_witness:
  "data_target (image_request ''JPG'' None (Some ''fr'')) = Some ''fr''
   \<and> lower ''fr'' \<notin> set supported_languages
   \<and> extraction_phase base_env (image_request ''JPG'' None (Some ''fr'')) w0 =
       (Inr (None, False, None, Some ''Hello world'', ''en''),
        \<lparr>files = [''uploads/0001.jpg'' \<mapsto> ''JPG''],
         trace = [EvUuid ''0001'', EvStore ''uploads/0001.jpg'' ''JPG'' Stored,
           EvOpen ''uploads/0001.jpg'' True,
           EvOcr ''uploads/0001.jpg'' None (Some ''Helo wor1d''),
           EvDetect ''Helo wor1d'' (DetectLang ''en''),
           EvOpen ''uploads/0001.jpg'' True,
           EvOcr ''uploads/0001.jpg'' (Some ''eng'') (Some ''Hello world'')]\<rparr>)
   \<and> POST base_env (image_request ''JPG'' None (Some ''fr'')) w0 =
       (Inl (BadRequest ''This target language is not supported.''),
        \<lparr>files = [''uploads/0001.jpg'' \<mapsto> ''JPG''],
         trace = [EvUuid ''0001'', EvStore ''uploads/0001.jpg'' ''JPG'' Stored,
           EvOpen ''uploads/0001.jpg'' True,
           EvOcr ''uploads/0001.jpg'' None (Some ''Helo wor1d''),
           EvDetect ''Helo wor1d'' (DetectLang ''en''),
           EvOpen ''uploads/0001.jpg'' True,
           EvOcr ''uploads/0001.jpg'' (Some ''eng'') (Some ''Hello world'')]\<rparr>)
   \<and> status (BadRequest ''This target language is not supported.'') = 400"
proof -
  let ?req = "image_request ''JPG'' None (Some ''fr'')"
  have t: "data_target ?req = Some ''fr''"
    and n: "lower ''fr'' \<notin> set supported_languages"
    by (simp_all add: image_request_def lower_fr supported_languages_def)
  then have h: "data_target ?req = None
      \<or> (\<exists>tg. data_target ?req = Some tg \<and> lower tg \<notin> set supported_languages)"
    by blast
  note inst = bad_target_rejected_after_extraction[OF h, of base_env w0]
  from inst[THEN conjunct2, THEN conjunct1, rule_format, OF unsupported_target_phase]
  have p: "POST base_env ?req w0 =
       (Inl (BadRequest ''This target language is not supported.''),
        \<lparr>files = [''uploads/0001.jpg'' \<mapsto> ''JPG''],
         trace = [EvUuid ''0001'', EvStore ''uploads/0001.jpg'' ''JPG'' Stored,
           EvOpen ''uploads/0001.jpg'' True,
           EvOcr ''uploads/0001.jpg'' None (Some ''Helo wor1d''),
           EvDetect ''Helo wor1d'' (DetectLang ''en''),
           EvOpen ''uploads/0001.jpg'' True,
           EvOcr ''uploads/0001.jpg'' (Some ''eng'') (Some ''Hello world'')]\<rparr>)"
    by (simp add: t)
  have st: "status (BadRequest ''This target language is not supported.'') = 400"
    by simp
  from t n unsupported_target_phase p st show ?thesis by blast
qed

text \<open>
  C5. For a request with a corrected text: the image and the file type do not matter
  (any other values give the same result and the same world); the handler only calls
  the detector, the language names and the translator, so no upload is validated,
  opened or read by the OCR engine; no file is written; and when the text decodes to a
  non-empty string, the first call is the detection on the decoded text, and every
  detection is on that text.
\<close>

theorem corrected_text_ignores_image:
  assumes "data_text data = Some b"
  shows "POST env (data\<lparr>data_image := img, data_filetype := ft\<rparr>) w = POST env data w
     \<and> (\<forall>e \<in> set (events (POST env data) w). is_detect e \<or> is_languages e \<or> is_translate e)
     \<and> files (snd (POST env data w)) = files w
     \<and> (\<forall>ct. ext_b64decode env b = Some ct \<and> ct \<noteq> [] \<longrightarrow>
          (\<exists>a rest. events (POST env data) w = EvDetect ct a # rest))
     \<and> (\<forall>t a. EvDetect t a \<in> set (events (POST env data) w) \<longrightarrow> ext_b64decode env b = Some t)"
proof -
  have a: "POST env (data\<lparr>data_image := img, data_filetype := ft\<rparr>) w = POST env data w"
    by (simp add: POST_image_irrelevant[OF assms])
  have "(\<forall>e \<in> set (events (POST env data) w). is_detect e \<or> is_languages e \<or> is_translate e)
     \<and> files (snd (POST env data w)) = files w
     \<and> (\<forall>ct. ext_b64decode env b = Some ct \<and> ct \<noteq> [] \<longrightarrow>
          (\<exists>a rest. events (POST env data) w = EvDetect ct a # rest))
     \<and> (\<forall>t a. EvDetect t a \<in> set (events (POST env data) w) \<longrightarrow> ext_b64decode env b = Some t)"
  proof (cases "ext_b64decode env b")
    case None
    from POST_text_undecodable[OF assms None] show ?thesis
      by (simp add: None)
  next
    case (Some ct)
    note st = sat_POST_text[OF assms Some]
    note run = satD(1)[OF st, of w]
    have k: "\<forall>e \<in> set (events (POST env data) w). is_detect e \<or> is_languages e \<or> is_translate e"
      using text_kinds[OF run] by blast
    then have "\<forall>e \<in> set (events (POST env data) w). \<not> is_store e"
      using kind_not_store by blast
    from satD(3)[OF st this] have f: "files (snd (POST env data w)) = files w" .
    from k f text_first[OF run] text_detect[OF run] Some show ?thesis by auto
  qed
  with a show ?thesis by blast
qed

theorem corrected_text_ignores_image_witness:
  "data_text (text_request ''SGFsbG8gV2VsdA=='' None (Some ''en'')) = Some ''SGFsbG8gV2VsdA==''
   \<and> ext_b64decode base_env ''SGFsbG8gV2VsdA=='' = Some ''Hallo Welt''
   \<and> POST base_env ((text_request ''SGFsbG8gV2VsdA=='' None (Some ''en''))
         \<lparr>data_image := Some (Upload ''JPG'' (Some ''photo.jpg'')), data_filetype := Some ''jpg''\<rparr>) w0
       = POST base_env (text_request ''SGFsbG8gV2VsdA=='' None (Some ''en'')) w0
   \<and> files (snd (POST base_env (text_request ''SGFsbG8gV2VsdA=='' None (Some ''en'')) w0)) = files w0
   \<and> (\<exists>a rest. events (POST base_env (text_request ''SGFsbG8gV2VsdA=='' None (Some ''en''))) w0
         = EvDetect ''Hallo Welt'' a # rest)"
proof -
  let ?req = "text_request ''SGFsbG8gV2VsdA=='' None (Some ''en'')"
  have t: "data_text ?req = Some ''SGFsbG8gV2VsdA==''"
    and d: "ext_b64decode base_env ''SGFsbG8gV2VsdA=='' = Some ''Hallo Welt''"
    by (simp_all add: text_request_def base_env_def)
  note inst = corrected_text_ignores_image[OF t, where env=base_env and w=w0
      and img="Some (Upload ''JPG'' (Some ''photo.jpg''))" and ft="Some ''jpg''"]
  have ne: "''Hallo Welt'' \<noteq> []" by simp
  from inst[THEN conjunct2, THEN conjunct2, THEN conjunct2, THEN conjunct1, rule_format,
      OF conjI[OF d ne]]
  have f: "\<exists>a rest. events (POST base_env ?req) w0 = EvDetect ''Hallo Welt'' a # rest" .
  from inst have e: "POST base_env (?req\<lparr>data_image := Some (Upload ''JPG'' (Some ''photo.jpg'')),
        data_filetype := Some ''jpg''\<rparr>) w0 = POST base_env ?req w0"
    and g: "files (snd (POST base_env ?req w0)) = files w0"
    by blast+
  from t d e g f show ?thesis by blast
qed

text \<open>
  C6. Whenever the OCR engine returns the empty string in a run of the handler, the
  request fails with \<^verbatim>\<open>web.notfound\<close> (404); whenever the engine raises, the request
  fails with \<^verbatim>\<open>web.internalerror\<close> (500).
\<close>

theorem no_text_is_not_found:
  "(EvOcr p h (Some []) \<in> set (events (POST env data) w) \<longrightarrow>
      outcome (POST env data) w = Inl (NotFound ''No text detected in image.'')
      \<and> status (NotFound ''No text detected in image.'') = 404)
   \<and> (EvOcr p h None \<in> set (events (POST env data) w) \<longrightarrow>
      outcome (POST env data) w = Inl (InternalError ''Could not extract text from image.'')
      \<and> status (InternalError ''Could not extract text from image.'') = 500)"
proof (cases rule: POST_cases[where env=env and data=data and w=w])
  case (undecodable b)
  then show ?thesis by (simp add: events_unchanged)
next
  case (corrected b ct)
  from text_kinds[OF corrected(3)] show ?thesis by fastforce
next
  case no_image
  from tail_events[OF no_image(3)] show ?thesis by auto
next
  case (invalid img e)
  then show ?thesis by (simp add: events_unchanged)
next
  case (valid img v ft u out rE E T)
  have T: "T = [] \<or> (\<exists>t tg x. T = [EvTranslate t tg (read_source data) x])"
    by (rule tail_translate_only[OF valid(6)])
  have mem: "EvOcr p h x \<in> set (events (POST env data) w) \<longleftrightarrow> EvOcr p h x \<in> set E" for x
    using T unfolding valid(5) by auto
  from extract_ocr_faults[OF valid(4), of p h] valid(6) show ?thesis
    unfolding mem by auto
qed

theorem no_text_is_not_found_witness:
  "EvOcr ''uploads/0001.jpg'' None (Some [])
      \<in> set (events (POST blank_page_env (image_request ''JPG'' None (Some ''de''))) w0)
   \<and> outcome (POST blank_page_env (image_request ''JPG'' None (Some ''de''))) w0
       = Inl (NotFound ''No text detected in image.'')
   \<and> EvOcr ''uploads/0001.jpg'' None None
      \<in> set (events (POST broken_engine_env (image_request ''JPG'' None (Some ''fr''))) w0)
   \<and> outcome (POST broken_engine_env (image_request ''JPG'' None (Some ''fr''))) w0
       = Inl (InternalError ''Could not extract text from image.'')"
proof -
  have a: "EvOcr ''uploads/0001.jpg'' None (Some [])
      \<in> set (events (POST blank_page_env (image_request ''JPG'' None (Some ''de''))) w0)"
    by (simp add: blank_page_events)
  have b: "EvOcr ''uploads/0001.jpg'' None None
      \<in> set (events (POST broken_engine_env (image_request ''JPG'' None (Some ''fr''))) w0)"
    by (simp add: broken_engine_events)
  from no_text_is_not_found[where p="''uploads/0001.jpg''" and h=None and env=blank_page_env
      and data="image_request ''JPG'' None (Some ''de'')" and w=w0] a
  have c: "outcome (POST blank_page_env (image_request ''JPG'' None (Some ''de''))) w0
       = Inl (NotFound ''No text detected in image.'')"
    by blast
  from no_text_is_not_found[where p="''uploads/0001.jpg''" and h=None and env=broken_engine_env
      and data="image_request ''JPG'' None (Some ''fr'')" and w=w0] b
  have d: "outcome (POST broken_engine_env (image_request ''JPG'' None (Some ''fr''))) w0
       = Inl (InternalError ''Could not extract text from image.'')"
    by blast
  from a b c d show ?thesis by blast
qed

text \<open>
  C7. An image request (no corrected text) whose image has no bytes is answered with
  400, message \<^verbatim>\<open>No image to process. No value.\<close>, and leaves the world as it was: no
  file is written and no collaborator is called.
\<close>

theorem empty_image_rejected:
  assumes "data_text data = None" and "data_image data = Some (Upload [] fname)"
  shows "fst (POST env data w) = Inl (BadRequest ''No image to process. No value.'')
         \<and> status (BadRequest ''No image to process. No value.'') = 400
         \<and> snd (POST env data w) = w"
  using assms
  by (simp add: POST_def extraction_phase_def read_corrected_def image_block_def
        validate_upload_def act_defs)

theorem empty_image_rejected_witness:
  "data_text (image_request [] None (Some ''en'')) = None
   \<and> data_image (image_request [] None (Some ''en'')) = Some (Upload [] (Some ''photo.jpg''))
   \<and> fst (POST base_env (image_request [] None (Some ''en'')) w0)
       = Inl (BadRequest ''No image to process. No value.'')
   \<and> snd (POST base_env (image_request [] None (Some ''en'')) w0) = w0"
proof -
  have a: "data_text (image_request [] None (Some ''en'')) = None"
    by (simp add: image_request_def)
  have b: "data_image (image_request [] None (Some ''en'')) = Some (Upload [] (Some ''photo.jpg''))"
    by (simp add: image_request_def)
  from empty_image_rejected [OF a b, of base_env w0] a b show ?thesis by simp
qed

text \<open>
  C8. A declared source language that is (lowered) not in en, de, it is treated as
  absent: the request runs exactly as the same request without source; every call of the
  translator is made without source; and every hint given to the OCR engine comes from a
  guess of the detector, none from the declared source.
\<close>

theorem unsupported_source_is_absent:
  assumes "data_source data = Some s" and "lower s \<notin> set supported_languages"
  shows "POST env data w = POST env (data\<lparr>data_source := None\<rparr>) w
     \<and> (\<forall>t tg src x. EvTranslate t tg src x \<in> set (events (POST env data) w) \<longrightarrow> src = None)
     \<and> (\<forall>p h x. EvOcr p h x \<in> set (events (POST env data) w) \<longrightarrow>
          h = None
          \<or> (\<exists>t a g. EvDetect t a \<in> set (events (POST env data) w) \<and> guess a = Some g
                \<and> h = supported_languages_tesseract g))"
proof -
  note sl = read_source_unsupported[OF assms]
  have a: "POST env data w = POST env (data\<lparr>data_source := None\<rparr>) w"
    by (simp add: POST_source_irrelevant[OF sl, of env])
  have "(\<forall>t tg src x. EvTranslate t tg src x \<in> set (events (POST env data) w) \<longrightarrow> src = None)
     \<and> (\<forall>p h x. EvOcr p h x \<in> set (events (POST env data) w) \<longrightarrow>
          h = None
          \<or> (\<exists>t a g. EvDetect t a \<in> set (events (POST env data) w) \<and> guess a = Some g
                \<and> h = supported_languages_tesseract g))"
  proof (cases rule: POST_cases[where env=env and data=data and w=w])
    case (undecodable b)
    then show ?thesis by (simp add: events_unchanged)
  next
    case (corrected b ct)
    from text_translate[OF corrected(3)] text_kinds[OF corrected(3)] sl show ?thesis
      by fastforce
  next
    case no_image
    from tail_events[OF no_image(3)] sl show ?thesis by auto
  next
    case (invalid img e)
    then show ?thesis by (simp add: events_unchanged)
  next
    case (valid img v ft u out rE E T)
    have T: "T = [] \<or> (\<exists>t tg x. T = [EvTranslate t tg None x])"
      using tail_translate_only[OF valid(6)] unfolding sl .
    have tr: "src = None" if "EvTranslate t tg src x \<in> set (events (POST env data) w)"
      for t tg src x
      using that T extract_kinds[OF valid(4), of "EvTranslate t tg src x"]
      unfolding valid(5) by auto
    have oc: "h = None
          \<or> (\<exists>t a g. EvDetect t a \<in> set (events (POST env data) w) \<and> guess a = Some g
                \<and> h = supported_languages_tesseract g)"
      if "EvOcr p h x \<in> set (events (POST env data) w)" for p h x
    proof -
      from that T have "EvOcr p h x \<in> set E" unfolding valid(5) by auto
      from extract_hints[OF valid(4)[unfolded sl] this] show ?thesis
        unfolding valid(5) by auto
    qed
    from tr oc show ?thesis by blast
  qed
  with a show ?thesis by blast
qed

theorem unsupported_source_is_absent_witness:
  "data_source (image_request ''JPG'' (Some ''fr'') (Some ''de'')) = Some ''fr''
   \<and> lower ''fr'' \<notin> set supported_languages
   \<and> POST base_env (image_request ''JPG'' (Some ''fr'') (Some ''de'')) w0
       = POST base_env ((image_request ''JPG'' (Some ''fr'') (Some ''de''))\<lparr>data_source := None\<rparr>) w0
   \<and> EvTranslate ''Hello world'' ''de'' None (Some ''Hallo Welt'')
       \<in> set (events (POST base_env (image_request ''JPG'' (Some ''fr'') (Some ''de''))) w0)
   \<and> EvOcr ''uploads/0001.jpg'' (Some ''eng'') (Some ''Hello world'')
       \<in> set (events (POST base_env (image_request ''JPG'' (Some ''fr'') (Some ''de''))) w0)
   \<and> (\<exists>t a g. EvDetect t a
           \<in> set (events (POST base_env (image_request ''JPG'' (Some ''fr'') (Some ''de''))) w0)
         \<and> guess a = Some g \<and> Some ''eng'' = supported_languages_tesseract g)"
proof -
  let ?req = "image_request ''JPG'' (Some ''fr'') (Some ''de'')"
  have s: "data_source ?req = Some ''fr''"
    and n: "lower ''fr'' \<notin> set supported_languages"
    by (simp_all add: image_request_def lower_fr supported_languages_def)
  have ev: "events (POST base_env ?req) w0 =
       [EvUuid ''0001'', EvStore ''uploads/0001.jpg'' ''JPG'' Stored,
         EvOpen ''uploads/0001.jpg'' True,
         EvOcr ''uploads/0001.jpg'' None (Some ''Helo wor1d''),
         EvDetect ''Helo wor1d'' (DetectLang ''en''),
         EvOpen ''uploads/0001.jpg'' True,
         EvOcr ''uploads/0001.jpg'' (Some ''eng'') (Some ''Hello world''),
         EvTranslate ''Hello world'' ''de'' None (Some ''Hallo Welt'')]"
    by (simp add: events_def french_source_run trace_w0)
  have tr: "EvTranslate ''Hello world'' ''de'' None (Some ''Hallo Welt'')
       \<in> set (events (POST base_env ?req) w0)"
    and oc: "EvOcr ''uploads/0001.jpg'' (Some ''eng'') (Some ''Hello world'')
       \<in> set (events (POST base_env ?req) w0)"
    by (simp_all add: ev)
  note inst = unsupported_source_is_absent[OF s n, of base_env w0]
  from inst have a: "POST base_env ?req w0 = POST base_env (?req\<lparr>data_source := None\<rparr>) w0"
    by blast
  from inst oc have b: "\<exists>t a g. EvDetect t a \<in> set (events (POST base_env ?req) w0)
         \<and> guess a = Some g \<and> Some ''eng'' = supported_languages_tesseract g"
    by blast
  from s n a tr oc b show ?thesis by blast
qed

text \<open>
  C9. In an image request the detector is called at most once. When it is called, the
  trace up to that call is the identifier, the store and the first extraction pass, and
  the call is on the text of that pass; no detection follows it. When the request
  succeeds after two passes, the extraction and detection events are the first pass, the
  detection on its text and the second pass; the text of the response is the text of
  the second pass; the translator is called exactly once, on that text, and its answer
  is the translation of the response; the detected language is the guess made on the
  first text (its display name when the guess is not a supported language).
\<close>

theorem detection_runs_once:
  assumes "data_text data = None" and "data_image data = Some img"
  shows "length (filter is_detect (events (POST env data) w)) \<le> 1
   \<and> (\<forall>t a. EvDetect t a \<in> set (events (POST env data) w) \<longrightarrow>
        (\<exists>u p v out h rest.
           events (POST env data) w =
             [EvUuid u, EvStore p v out, EvOpen p True, EvOcr p h (Some t), EvDetect t a] @ rest
           \<and> (\<forall>e \<in> set rest. \<not> is_detect e)))
   \<and> (\<forall>resp. outcome (POST env data) w = Inr resp
          \<and> length (filter is_open (events (POST env data) w)) = 2 \<longrightarrow>
        (\<exists>p h1 h2 t1 a g tg.
           filter (\<lambda>e. is_ocr e \<or> is_detect e) (events (POST env data) w)
             = [EvOcr p h1 (Some t1), EvDetect t1 a, EvOcr p h2 (Some (resp_text resp))]
           \<and> filter is_translate (events (POST env data) w)
             = [EvTranslate (resp_text resp) tg (read_source data) (Some (translation resp))]
           \<and> guess a = Some g
           \<and> (g \<in> set supported_languages \<and> detected resp = g
              \<or> g \<notin> set supported_languages
                \<and> (\<exists>dict. EvLanguages (Some dict) \<in> set (events (POST env data) w)
                      \<and> detected resp = display_name dict g))))"
  using assms
proof (cases rule: POST_image_cases[where env=env and w=w])
  case (invalid e)
  then show ?thesis by (simp add: events_unchanged outcome_def)
next
  case (valid v ft u out rE E T)
  note ev = valid(3)
  have T: "T = [] \<or> (\<exists>t tg x. T = [EvTranslate t tg (read_source data) x])"
    by (rule tail_translate_only[OF valid(4)])
  have dets: "filter is_detect (events (POST env data) w) = filter is_detect E"
    and opens: "filter is_open (events (POST env data) w) = filter is_open E"
    and mem: "\<And>t a. EvDetect t a \<in> set (events (POST env data) w) \<longleftrightarrow> EvDetect t a \<in> set E"
    using T unfolding ev by auto
  have a: "length (filter is_detect (events (POST env data) w)) \<le> 1"
    unfolding dets by (rule extract_detect_once(1)[OF valid(2)])
  have b: "\<exists>u p v out h rest.
           events (POST env data) w =
             [EvUuid u, EvStore p v out, EvOpen p True, EvOcr p h (Some t), EvDetect t a] @ rest
           \<and> (\<forall>e \<in> set rest. \<not> is_detect e)"
    if "EvDetect t a \<in> set (events (POST env data) w)" for t a
  proof -
    from that have "EvDetect t a \<in> set E" unfolding mem .
    from extract_detect_shape[OF valid(2) this] obtain h rest where
      E: "E = [EvOpen (image_path u ft) True, EvOcr (image_path u ft) h (Some t), EvDetect t a] @ rest"
      and rest: "\<forall>e \<in> set rest. \<not> is_detect e"
      by blast
    have "events (POST env data) w =
        [EvUuid u, EvStore (image_path u ft) v out, EvOpen (image_path u ft) True,
         EvOcr (image_path u ft) h (Some t), EvDetect t a] @ (rest @ T)"
      unfolding ev E by simp
    moreover have "\<forall>e \<in> set (rest @ T). \<not> is_detect e"
      using rest T by auto
    ultimately show ?thesis by blast
  qed
  have c: "\<exists>p h1 h2 t1 a g tg.
           filter (\<lambda>e. is_ocr e \<or> is_detect e) (events (POST env data) w)
             = [EvOcr p h1 (Some t1), EvDetect t1 a, EvOcr p h2 (Some (resp_text resp))]
           \<and> filter is_translate (events (POST env data) w)
             = [EvTranslate (resp_text resp) tg (read_source data) (Some (translation resp))]
           \<and> guess a = Some g
           \<and> (g \<in> set supported_languages \<and> detected resp = g
              \<or> g \<notin> set supported_languages
                \<and> (\<exists>dict. EvLanguages (Some dict) \<in> set (events (POST env data) w)
                      \<and> detected resp = display_name dict g))"
    if r: "outcome (POST env data) w = Inr resp"
      and two: "length (filter is_open (events (POST env data) w)) = 2" for resp
  proof -
    from valid(4) r obtain t d where rE: "rE = Inr (t, d)"
      and tl: "tail_post data (Some t) (read_source data) d (Inr resp) T"
      by auto
    from tail_success[OF tl] obtain tg tr where
      TT: "T = [EvTranslate t (lower tg) (read_source data) (Some tr)]"
      and resp: "resp = \<lparr>detected = d, resp_text = t, translation = tr\<rparr>"
      by auto
    from extract_success[OF valid(2)[unfolded rE]] two[unfolded opens]
    show ?thesis by (auto simp: ev TT resp)
  qed
  from a b c show ?thesis by blast
qed

theorem detection_runs_once_witness:
  "data_text (image_request ''JPG'' None (Some ''de'')) = None
   \<and> data_image (image_request ''JPG'' None (Some ''de'')) = Some (Upload ''JPG'' (Some ''photo.jpg''))
   \<and> EvDetect ''Helo wor1d'' (DetectLang ''en'')
        \<in> set (events (POST base_env (image_request ''JPG'' None (Some ''de''))) w0)
   \<and> outcome (POST base_env (image_request ''JPG'' None (Some ''de''))) w0 =
        Inr \<lparr>detected = ''en'', resp_text = ''Hello world'', translation = ''Hallo Welt''\<rparr>
   \<and> length (filter is_open (events (POST base_env (image_request ''JPG'' None (Some ''de''))) w0)) = 2
   \<and> length (filter is_detect (events (POST base_env (image_request ''JPG'' None (Some ''de''))) w0)) \<le> 1
   \<and> (\<exists>u p v out h rest.
         events (POST base_env (image_request ''JPG'' None (Some ''de''))) w0 =
           [EvUuid u, EvStore p v out, EvOpen p True, EvOcr p h (Some ''Helo wor1d''),
            EvDetect ''Helo wor1d'' (DetectLang ''en'')] @ rest)
   \<and> (\<exists>p h1 h2 t1 a tg src.
         filter (\<lambda>e. is_ocr e \<or> is_detect e)
             (events (POST base_env (image_request ''JPG'' None (Some ''de''))) w0)
           = [EvOcr p h1 (Some t1), EvDetect t1 a, EvOcr p h2 (Some ''Hello world'')]
         \<and> filter is_translate (events (POST base_env (image_request ''JPG'' None (Some ''de''))) w0)
           = [EvTranslate ''Hello world'' tg src (Some ''Hallo Welt'')])"
proof -
  let ?req = "image_request ''JPG'' None (Some ''de'')"
  have h1: "data_text ?req = None"
    and h2: "data_image ?req = Some (Upload ''JPG'' (Some ''photo.jpg''))"
    by (simp_all add: image_request_def)
  have d: "EvDetect ''Helo wor1d'' (DetectLang ''en'') \<in> set (events (POST base_env ?req) w0)"
    and two: "length (filter is_open (events (POST base_env ?req) w0)) = 2"
    by (simp_all add: sample_events)
  note inst = detection_runs_once[OF h1 h2, of base_env w0]
  from inst have a: "length (filter is_detect (events (POST base_env ?req) w0)) \<le> 1"
    by blast
  from inst d have b: "\<exists>u p v out h rest.
         events (POST base_env ?req) w0 =
           [EvUuid u, EvStore p v out, EvOpen p True, EvOcr p h (Some ''Helo wor1d''),
            EvDetect ''Helo wor1d'' (DetectLang ''en'')] @ rest"
    by blast
  from inst sample_outcome two
  have c: "\<exists>p h1 h2 t1 a tg src.
         filter (\<lambda>e. is_ocr e \<or> is_detect e) (events (POST base_env ?req) w0)
           = [EvOcr p h1 (Some t1), EvDetect t1 a, EvOcr p h2 (Some ''Hello world'')]
         \<and> filter is_translate (events (POST base_env ?req) w0)
           = [EvTranslate ''Hello world'' tg src (Some ''Hallo Welt'')]"
    by fastforce
  from h1 h2 d sample_outcome two a b c show ?thesis by blast
qed

text \<open>
  C10, as the code has it. The claim says that, when the store raises, the caller may
  even get a success. Python raises the pending storage fault again when the \<^verbatim>\<open>finally\<close>
  clause ends: here the store raises, both extraction passes and the detection
  succeed, and the answer is the storage fault, with status 500.
\<close>

theorem store_fault_counterexample:
  "outcome (POST full_disk_env (image_request ''JPG'' None (Some ''de''))) w0
     = Inl (InternalError ''Server: Could not store image.'')
   \<and> events (POST full_disk_env (image_request ''JPG'' None (Some ''de''))) w0 =
       [EvUuid ''0001'', EvStore ''uploads/0001.jpg'' ''JPG'' (StoreRaised (Some ''JP'')),
        EvOpen ''uploads/0001.jpg'' True,
        EvOcr ''uploads/0001.jpg'' None (Some ''Helo wor1d''),
        EvDetect ''Helo wor1d'' (DetectLang ''en''),
        EvOpen ''uploads/0001.jpg'' True,
        EvOcr ''uploads/0001.jpg'' (Some ''eng'') (Some ''Hello world'')]"
  by (simp add: events_def outcome_def full_disk_run trace_w0)

text \<open>
  C10, amended. For a valid image upload whose store raises (\<open>w2\<close> is the world after
  the attempt): the handler still runs the extraction and the detection on the composed
  path, so the image is opened; the answer is the fault of that extraction when it raises
  one, and the storage fault otherwise; it is never a success.
\<close>

theorem store_fault_after_extraction:
  assumes "data_text data = None" and "data_image data = Some img"
    and "validate_upload img (data_filetype data) = Inr (v, ft)"
    and "u = ext_uuid4 env w" and "p = image_path u ft"
    and "ext_store env (log (EvUuid u) w) p v = StoreRaised c"
    and "w2 = snd (call_store env p v (snd (call_uuid4 env w)))"
  shows "outcome (POST env data) w =
           (case outcome (extract_and_detect env p (read_source data)) w2 of
              Inl e \<Rightarrow> Inl e
            | Inr x \<Rightarrow> Inl (InternalError ''Server: Could not store image.''))
       \<and> events (POST env data) w =
           EvUuid u # EvStore p v (StoreRaised c)
             # events (extract_and_detect env p (read_source data)) w2
       \<and> (EvOpen p True \<in> set (events (POST env data) w)
           \<or> EvOpen p False \<in> set (events (POST env data) w))
       \<and> (\<exists>e. outcome (POST env data) w = Inl e)"
proof -
  let ?m = "extract_and_detect env p (read_source data)"
  note run = POST_store_raised[OF assms(1-3) assms(6)[unfolded assms(4,5)],
      folded assms(4), folded assms(5), folded assms(7)]
  obtain rE w3 where m: "?m w2 = (rE, w3)" by (cases "?m w2")
  have tr2: "trace w2 = trace w @ [EvUuid u, EvStore p v (StoreRaised c)]"
    using assms(6) unfolding assms(7)
    by (simp add: call_store_def call_uuid4_def log_def Let_def assms(4))
  have tr3: "trace w3 = trace w2 @ events ?m w2"
    using satD(2)[OF sat_extract_and_detect[of env p "read_source data"], of w2] m by simp
  have post: "POST env data w =
      (case rE of Inl e \<Rightarrow> Inl e
               | Inr x \<Rightarrow> Inl (InternalError ''Server: Could not store image.''), w3)"
    unfolding run m by (simp split: sum.split)
  have a: "outcome (POST env data) w =
           (case outcome ?m w2 of
              Inl e \<Rightarrow> Inl e
            | Inr x \<Rightarrow> Inl (InternalError ''Server: Could not store image.''))"
    by (simp add: outcome_def post m)
  have b: "events (POST env data) w =
           EvUuid u # EvStore p v (StoreRaised c) # events ?m w2"
    by (simp add: events_def[of "POST env data"] post tr3 tr2)
  have hint: "\<forall>s. read_source data = Some s \<longrightarrow> supported_languages_tesseract s \<noteq> None"
    using read_source_supported supported_has_hint by blast
  have "p \<noteq> []" by (simp add: assms(5))
  with extract_opens_path[OF satD(1)[OF sat_extract_and_detect[of env p "read_source data"], of w2]]
    hint
  have c: "EvOpen p True \<in> set (events ?m w2) \<or> EvOpen p False \<in> set (events ?m w2)"
    by blast
  have d: "\<exists>e. outcome (POST env data) w = Inl e"
    unfolding a by (cases "outcome ?m w2") simp_all
  from a b c d show ?thesis by auto
qed

theorem store_fault_after_extraction_witness:
  "data_text (image_request ''JPG'' None (Some ''de'')) = None
   \<and> data_image (image_request ''JPG'' None (Some ''de'')) = Some (Upload ''JPG'' (Some ''photo.jpg''))
   \<and> validate_upload (Upload ''JPG'' (Some ''photo.jpg''))
         (data_filetype (image_request ''JPG'' None (Some ''de''))) = Inr (''JPG'', ''jpg'')
   \<and> ''0001'' = ext_uuid4 no_disk_env w0
   \<and> ''uploads/0001.jpg'' = image_path ''0001'' ''jpg''
   \<and> ext_store no_disk_env (log (EvUuid ''0001'') w0) ''uploads/0001.jpg'' ''JPG'' = StoreRaised None
   \<and> outcome (POST no_disk_env (image_request ''JPG'' None (Some ''de''))) w0
       = Inl (InternalError ''Could not open image.'')
   \<and> events (POST no_disk_env (image_request ''JPG'' None (Some ''de''))) w0
       = [EvUuid ''0001'', EvStore ''uploads/0001.jpg'' ''JPG'' (StoreRaised None),
          EvOpen ''uploads/0001.jpg'' False]"
proof -
  let ?req = "image_request ''JPG'' None (Some ''de'')"
  let ?w2 = "snd (call_store no_disk_env ''uploads/0001.jpg'' ''JPG'' (snd (call_uuid4 no_disk_env w0)))"
  have h1: "data_text ?req = None"
    and h2: "data_image ?req = Some (Upload ''JPG'' (Some ''photo.jpg''))"
    and h3: "validate_upload (Upload ''JPG'' (Some ''photo.jpg'')) (data_filetype ?req)
               = Inr (''JPG'', ''jpg'')"
    and h4: "''0001'' = ext_uuid4 no_disk_env w0"
    and h5: "''uploads/0001.jpg'' = image_path ''0001'' ''jpg''"
    and h6: "ext_store no_disk_env (log (EvUuid ''0001'') w0) ''uploads/0001.jpg'' ''JPG''
               = StoreRaised None"
    by (simp_all add: image_request_def validate_upload_def lower_jpg supported_filetypes_def
          no_disk_env_def base_env_def image_path_def)
  have src: "read_source ?req = None"
    by (simp add: image_request_def)
  have ex: "outcome (extract_and_detect no_disk_env ''uploads/0001.jpg'' None) ?w2
              = Inl (InternalError ''Could not open image.'')"
    and ev: "events (extract_and_detect no_disk_env ''uploads/0001.jpg'' None) ?w2
              = [EvOpen ''uploads/0001.jpg'' False]"
    by (simp_all add: outcome_def events_def no_disk_extract)
       (simp add: call_store_def call_uuid4_def log_def no_disk_env_def base_env_def w0_def Let_def)
  from store_fault_after_extraction[OF h1 h2 h3 h4 h5 h6 refl]
  have "outcome (POST no_disk_env ?req) w0 = Inl (InternalError ''Could not open image.'')
      \<and> events (POST no_disk_env ?req) w0
          = [EvUuid ''0001'', EvStore ''uploads/0001.jpg'' ''JPG'' (StoreRaised None),
             EvOpen ''uploads/0001.jpg'' False]"
    unfolding src ex ev by simp
  with h1 h2 h3 h4 h5 h6 show ?thesis by blast
qed

end
